theory Spec2Isabelle
  imports Main "HOL-Library.AList" "HOL-Library.Sublist" "HOL-Library.Multiset"
begin

section \<open>Calendar service of timebloc (src/lib/calendar-service.ts)\<close>

text \<open>
  A shallow embedding of the class \<^verbatim>\<open>CalendarService\<close>: the in-memory connection table
  (a JavaScript \<^verbatim>\<open>Map\<close>), the two event fetchers, the aggregator
  \<^verbatim>\<open>getAllCalendarEvents\<close>, the token refresh and the two ways a connection is created.
  Everything the class reads from outside (the clock, the HTTP transport, the Firebase SDK,
  the Tauri bridge, \<^verbatim>\<open>atob\<close>/\<^verbatim>\<open>JSON.parse\<close>, \<^verbatim>\<open>new Date(string)\<close>) is a field of an
  environment record; everything it mutates is a field of a state record that the
  functions take and return. A JavaScript exception is a value \<open>Inl e\<close> of a sum type.
\<close>

subsection \<open>JavaScript values\<close>

text \<open>
  A thrown value: an \<^verbatim>\<open>Error\<close> with its message, or a Firebase error, which also carries
  a \<^verbatim>\<open>code\<close> property.
\<close>

datatype error = Error string | FirebaseError string string

fun message :: "error \<Rightarrow> string" where
  "message (Error m) = m"
| "message (FirebaseError c m) = m"

text \<open>
  \<^verbatim>\<open>popupError && typeof popupError === 'object' && 'code' in popupError ? popupError.code : ''\<close>
\<close>

fun errorCode :: "error \<Rightarrow> string" where
  "errorCode (Error m) = []"
| "errorCode (FirebaseError c m) = c"

text \<open>
  A property that holds a string or is \<^verbatim>\<open>undefined\<close>/\<^verbatim>\<open>null\<close> is a \<open>string option\<close>.
  \<open>truthy\<close> is JavaScript's truthiness of such a value (the empty string is falsy),
  \<open>orElse\<close> is \<^verbatim>\<open>a || b\<close> with a string default, \<open>toStr\<close> is the conversion a template
  literal applies.
\<close>

fun truthy :: "string option \<Rightarrow> bool" where
  "truthy None = False"
| "truthy (Some s) = (s \<noteq> [])"

fun orElse :: "string option \<Rightarrow> string \<Rightarrow> string" where
  "orElse None d = d"
| "orElse (Some s) d = (if s = [] then d else s)"

fun toStr :: "string option \<Rightarrow> string" where
  "toStr None = ''undefined''"
| "toStr (Some s) = s"

text \<open>\<^verbatim>\<open>haystack.includes(needle)\<close>\<close>

definition str_includes :: "string \<Rightarrow> string \<Rightarrow> bool" where
  "str_includes haystack needle = sublist needle haystack"

text \<open>The decimal rendering of a non-negative integer, as in \<^verbatim>\<open>`${response.status}`\<close>.\<close>

definition digit :: "nat \<Rightarrow> char" where
  "digit d = ''0123456789'' ! d"

function numberToString :: "nat \<Rightarrow> string" where
  "numberToString n = (if n < 10 then [digit n] else numberToString (n div 10) @ [digit (n mod 10)])"
  by pat_completeness auto
termination
  by (relation "measure id") auto

declare numberToString.simps [simp del]

text \<open>
  A \<^verbatim>\<open>Date\<close> is its time value: milliseconds since the epoch, or \<open>None\<close> for an
  Invalid Date (whose \<^verbatim>\<open>getTime()\<close> is NaN). \<^verbatim>\<open>toISOString()\<close> throws a RangeError on an
  Invalid Date; the model keeps the instant instead of its ISO rendering.
\<close>

type_synonym Date = "int option"

definition rangeError :: error where
  "rangeError = Error ''Invalid time value''"

fun toISOString :: "Date \<Rightarrow> error + int" where
  "toISOString None = Inl rangeError"
| "toISOString (Some t) = Inr t"

text \<open>
  The TypeErrors of reading \<^verbatim>\<open>.length\<close> of an undefined access token and of reading a
  property of the JSON value \<^verbatim>\<open>null\<close>.
\<close>

definition typeErrorUndefined :: error where
  "typeErrorUndefined = Error ''Cannot read properties of undefined''"

definition typeErrorNull :: error where
  "typeErrorNull = Error ''Cannot read properties of null''"

subsection \<open>Data model\<close>

text \<open>
  \<^verbatim>\<open>interface CalendarConnection\<close>. \<^verbatim>\<open>email\<close> and \<^verbatim>\<open>accessToken\<close> are declared
  \<^verbatim>\<open>string\<close>, but \<^verbatim>\<open>processAuthToken\<close> stores the fields of a parsed JSON payload in
  them unchecked, so at run time either may be \<^verbatim>\<open>undefined\<close>.
\<close>

record CalendarConnection =
  conn_id :: string
  conn_provider :: string
  conn_email :: "string option"
  conn_accessToken :: "string option"
  conn_refreshToken :: "string option"
  conn_expiresAt :: int
  conn_connectedAt :: int

text \<open>\<^verbatim>\<open>interface CalendarEvent\<close>\<close>

record CalendarEvent =
  ev_id :: string
  ev_title :: string
  ev_start :: Date
  ev_end :: Date
  ev_isAllDay :: bool
  ev_description :: "string option"
  ev_location :: "string option"
  ev_provider :: string

text \<open>The items of the two providers' responses, as the source's inline types declare them.\<close>

record GoogleTime =
  dateTime :: "string option"
  date :: "string option"

record GoogleItem =
  g_id :: string
  g_summary :: "string option"
  g_start :: GoogleTime
  g_end :: GoogleTime
  g_description :: "string option"
  g_location :: "string option"

record MicrosoftLocation =
  displayName :: "string option"

record MicrosoftItem =
  m_id :: string
  m_subject :: "string option"
  m_start :: string
  m_end :: string
  m_isAllDay :: bool
  m_bodyPreview :: "string option"
  m_location :: "MicrosoftLocation option"

text \<open>
  The parsed body of a response: \<open>data_items\<close> is \<^verbatim>\<open>data.items\<close> when it is an array,
  \<open>data_value\<close> is \<^verbatim>\<open>data.value\<close> when it is an array, \<open>None\<close> otherwise.
\<close>

record ResponseData =
  data_items :: "GoogleItem list option"
  data_value :: "MicrosoftItem list option"

text \<open>
  A response of \<^verbatim>\<open>fetch\<close>: its status, the result of \<^verbatim>\<open>await response.text()\<close> and
  the result of \<^verbatim>\<open>await response.json()\<close>, which throws on a body that is not JSON and
  yields \<open>None\<close> for the JSON value \<^verbatim>\<open>null\<close>.
\<close>

record Response =
  status :: nat
  bodyText :: string
  bodyJson :: "error + ResponseData option"

definition ok :: "Response \<Rightarrow> bool" where
  "ok response = (200 \<le> status response \<and> status response \<le> 299)"

datatype api = GoogleCalendar | MicrosoftGraph

text \<open>
  A request: the endpoint, the two instants of the query string and the value of the
  \<^verbatim>\<open>Authorization: Bearer\<close> header.
\<close>

record Request =
  req_api :: api
  req_from :: int
  req_to :: int
  req_bearer :: string

subsection \<open>Environment and state\<close>

text \<open>
  The record the backend command \<^verbatim>\<open>get_calendar_connections\<close> returns, as
  \<^verbatim>\<open>loadConnections\<close> declares it (\<^verbatim>\<open>conn.id?.toString()\<close> allows a missing id).
\<close>

record ConnectionRecord =
  r_id :: "string option"
  r_provider :: string
  account_name :: "string option"
  access_token :: "string option"
  refresh_token :: "string option"
  expires_at :: int
  connected_at :: int

text \<open>
  The parsed manual-token payload \<^verbatim>\<open>{provider, email, uid, accessToken, idToken}\<close>; a field
  the JSON object lacks reads as \<^verbatim>\<open>undefined\<close>.
\<close>

record AuthData =
  ad_provider :: "string option"
  ad_email :: "string option"
  ad_uid :: "string option"
  ad_accessToken :: "string option"

text \<open>
  A Firebase \<^verbatim>\<open>User\<close> (\<open>providerData\<close> holds the \<^verbatim>\<open>providerId\<close> of each entry,
  \<open>getIdToken\<close> the outcome of \<^verbatim>\<open>await user.getIdToken()\<close>) and a \<^verbatim>\<open>UserCredential\<close>
  (\<open>googleCredential\<close> and \<open>oauthCredential\<close> are the outcomes of
  \<^verbatim>\<open>GoogleAuthProvider.credentialFromResult(result)?.accessToken\<close> and of
  \<^verbatim>\<open>OAuthProvider.credentialFromResult(result)?.accessToken\<close>).
\<close>

record User =
  uid :: string
  email :: "string option"
  providerData :: "string list"
  getIdToken :: "error + string"

record UserCredential =
  user :: "User option"
  googleCredential :: "error + string option"
  oauthCredential :: "error + string option"

text \<open>
  What the service reads from outside.
  \<^item> \<open>now\<close>: \<^verbatim>\<open>Date.now()\<close>;
  \<^item> \<open>fetch\<close>: the HTTP transport, \<open>Inl\<close> when \<^verbatim>\<open>fetch\<close> rejects;
  \<^item> \<open>newDate\<close>: \<^verbatim>\<open>new Date(string)\<close>;
  \<^item> \<open>importError\<close>: \<open>Some e\<close> when the dynamic import of the Tauri module throws \<open>e\<close>;
  \<^item> \<open>invokeError\<close>: \<open>Some e\<close> when invoking a command of the Tauri bridge throws \<open>e\<close>;
  \<^item> \<open>decodeToken\<close>: \<^verbatim>\<open>JSON.parse(atob(token.trim()))\<close>, \<open>Inl\<close> when \<^verbatim>\<open>atob\<close> or
    \<^verbatim>\<open>JSON.parse\<close> throws or the parsed value is \<^verbatim>\<open>null\<close> (reading its \<^verbatim>\<open>provider\<close> then
    throws inside the same \<^verbatim>\<open>try\<close>);
  \<^item> \<open>isTauri\<close>: \<^verbatim>\<open>typeof window !== 'undefined' && '__TAURI__' in window\<close>;
  \<^item> \<open>signInWithPopup\<close>, \<open>signInWithRedirect\<close>: the Firebase calls, by provider id.
\<close>

record Env =
  now :: int
  fetch :: "Request \<Rightarrow> error + Response"
  newDate :: "string \<Rightarrow> Date"
  importError :: "error option"
  invokeError :: "error option"
  decodeToken :: "string \<Rightarrow> error + AuthData"
  isTauri :: bool
  signInWithPopup :: "string \<Rightarrow> error + UserCredential"
  signInWithRedirect :: "string \<Rightarrow> error option"

text \<open>
  The state: \<^verbatim>\<open>this.connections\<close>, a \<^verbatim>\<open>Map\<close> from id to connection, as an association
  list in insertion order (\<^verbatim>\<open>set\<close> is \<^const>\<open>AList.update\<close>: an existing key keeps its
  place, a new key goes last; \<^verbatim>\<open>delete\<close> is \<^const>\<open>AList.delete\<close>), and the contents of
  the Credential Store.
\<close>

record Service =
  connections :: "(string \<times> CalendarConnection) list"
  credentialStore :: "ConnectionRecord list"

text \<open>
  Modelled from the spec: the Credential Store behind the Tauri commands (its Rust side is
  not under src/). The spec gives it three operations, \<^verbatim>\<open>list\<close>, \<^verbatim>\<open>upsert\<close> and
  \<^verbatim>\<open>remove\<close> by id, on records that mirror a connection.
\<close>

definition store_upsert :: "ConnectionRecord \<Rightarrow> ConnectionRecord list \<Rightarrow> ConnectionRecord list" where
  "store_upsert r rs =
     (if r_id r \<in> set (map r_id rs) then map (\<lambda>x. if r_id x = r_id r then r else x) rs
      else rs @ [r])"

definition store_remove :: "string \<Rightarrow> ConnectionRecord list \<Rightarrow> ConnectionRecord list" where
  "store_remove i rs = filter (\<lambda>x. r_id x \<noteq> Some i) rs"

text \<open>
  The outcome of \<^verbatim>\<open>const { invoke } = await import(...); await invoke(...)\<close> as far as
  errors go: the import comes first.
\<close>

definition bridgeError :: "Env \<Rightarrow> error option" where
  "bridgeError env = (case importError env of Some e \<Rightarrow> Some e | None \<Rightarrow> invokeError env)"

text \<open>The object \<^verbatim>\<open>saveConnectionToBackend\<close> passes to the backend command.\<close>

definition connectionRecord :: "CalendarConnection \<Rightarrow> ConnectionRecord" where
  "connectionRecord connection =
     \<lparr>r_id = Some (conn_id connection),
      r_provider = conn_provider connection,
      account_name = conn_email connection,
      access_token = conn_accessToken connection,
      refresh_token = conn_refreshToken connection,
      expires_at = conn_expiresAt connection,
      connected_at = conn_connectedAt connection\<rparr>"

text \<open>
  \<^verbatim>\<open>saveConnectionToBackend\<close>: inside its \<^verbatim>\<open>try\<close> the bridge is imported, then a
  \<^verbatim>\<open>console.log\<close> reads \<^verbatim>\<open>connection.accessToken.length\<close> (a TypeError when the token is
  undefined), then the command is invoked. Every error is logged and thrown again.
\<close>

definition saveConnectionToBackend :: "Env \<Rightarrow> CalendarConnection \<Rightarrow> Service \<Rightarrow> error + Service" where
  "saveConnectionToBackend env connection s =
     (case importError env of
        Some e \<Rightarrow> Inl e
      | None \<Rightarrow>
     (case conn_accessToken connection of
        None \<Rightarrow> Inl typeErrorUndefined
      | Some token \<Rightarrow>
     (case invokeError env of
        Some e \<Rightarrow> Inl e
      | None \<Rightarrow>
          Inr (s\<lparr>credentialStore := store_upsert (connectionRecord connection) (credentialStore s)\<rparr>))))"

text \<open>
  \<^verbatim>\<open>removeConnection\<close>: the table entry is deleted first; an error of the bridge is only
  logged.
\<close>

definition removeConnection :: "Env \<Rightarrow> string \<Rightarrow> Service \<Rightarrow> Service" where
  "removeConnection env connectionId s =
     s\<lparr>connections := AList.delete connectionId (connections s),
       credentialStore :=
         (case bridgeError env of
            None \<Rightarrow> store_remove connectionId (credentialStore s)
          | Some e \<Rightarrow> credentialStore s)\<rparr>"

text \<open>\<^verbatim>\<open>getConnections\<close>: \<^verbatim>\<open>Array.from(this.connections.values())\<close>\<close>

definition getConnections :: "Service \<Rightarrow> CalendarConnection list" where
  "getConnections s = map snd (connections s)"

subsection \<open>Token refresh\<close>

text \<open>\<^verbatim>\<open>refreshToken\<close>: \<open>None\<close> is the \<^verbatim>\<open>null\<close> the source returns.\<close>

definition refreshToken :: "CalendarConnection \<Rightarrow> CalendarConnection option" where
  "refreshToken connection =
     (if \<not> truthy (conn_refreshToken connection) then None
      else if conn_provider connection = ''google'' then None
      else if conn_provider connection = ''microsoft'' then None
      else None)"

text \<open>
  The first step of both fetchers:
  \<^verbatim>\<open>if (connection.expiresAt && Date.now() > connection.expiresAt) {
     const refreshedConnection = await this.refreshToken(connection);
     if (refreshedConnection) connection = refreshedConnection; }\<close>
\<close>

definition refreshIfExpired :: "Env \<Rightarrow> CalendarConnection \<Rightarrow> CalendarConnection" where
  "refreshIfExpired env connection =
     (if conn_expiresAt connection \<noteq> 0 \<and> now env > conn_expiresAt connection
      then (case refreshToken connection of
              Some refreshedConnection \<Rightarrow> refreshedConnection
            | None \<Rightarrow> connection)
      else connection)"

subsection \<open>Event fetchers\<close>

text \<open>The callbacks of \<^verbatim>\<open>data.items.map\<close> and \<^verbatim>\<open>data.value.map\<close>.\<close>

definition googleEvent :: "Env \<Rightarrow> GoogleItem \<Rightarrow> CalendarEvent" where
  "googleEvent env item =
     \<lparr>ev_id = g_id item,
      ev_title = orElse (g_summary item) ''(No title)'',
      ev_start = newDate env (orElse (dateTime (g_start item)) (orElse (date (g_start item)) [])),
      ev_end = newDate env (orElse (dateTime (g_end item)) (orElse (date (g_end item)) [])),
      ev_isAllDay = truthy (date (g_start item)),
      ev_description = g_description item,
      ev_location = g_location item,
      ev_provider = ''google''\<rparr>"

definition microsoftEvent :: "Env \<Rightarrow> MicrosoftItem \<Rightarrow> CalendarEvent" where
  "microsoftEvent env item =
     \<lparr>ev_id = m_id item,
      ev_title = orElse (m_subject item) ''(No title)'',
      ev_start = newDate env (m_start item),
      ev_end = newDate env (m_end item),
      ev_isAllDay = m_isAllDay item,
      ev_description = m_bodyPreview item,
      ev_location = (case m_location item of None \<Rightarrow> None | Some l \<Rightarrow> displayName l),
      ev_provider = ''microsoft''\<rparr>"

text \<open>The errors the fetchers throw themselves.\<close>

definition googleApiError :: "Response \<Rightarrow> error" where
  "googleApiError response =
     Error (''Google Calendar API error: '' @ numberToString (status response) @ '' - '' @ bodyText response)"

definition microsoftApiError :: "Response \<Rightarrow> error" where
  "microsoftApiError response =
     Error (''Microsoft Graph API error: '' @ numberToString (status response) @ '' - '' @ bodyText response)"

text \<open>
  The \<^verbatim>\<open>catch\<close> block of both fetchers: the error is logged, the connection is removed
  when the message contains \<^verbatim>\<open>401\<close>, and the empty list is returned.
\<close>

definition catchFetchError ::
  "Env \<Rightarrow> error \<Rightarrow> CalendarConnection \<Rightarrow> Service \<Rightarrow> (error + CalendarEvent list) \<times> Service" where
  "catchFetchError env e connection s =
     (Inr [],
      if str_includes (message e) ''401'' then removeConnection env (conn_id connection) s else s)"

text \<open>
  \<^verbatim>\<open>fetchGoogleCalendarEvents\<close>. The two \<^verbatim>\<open>console.log\<close> lines before the \<^verbatim>\<open>try\<close> read
  \<^verbatim>\<open>connection.accessToken.length\<close> and call \<^verbatim>\<open>toISOString()\<close> on both dates, so their
  errors leave the function. Inside the \<^verbatim>\<open>try\<close>, the retry after a refresh is returned
  without \<^verbatim>\<open>await\<close>, so its outcome is the outcome of the call.
\<close>

function fetchGoogleCalendarEvents ::
  "Env \<Rightarrow> CalendarConnection \<Rightarrow> Date \<Rightarrow> Date \<Rightarrow> Service \<Rightarrow> (error + CalendarEvent list) \<times> Service" where
  "fetchGoogleCalendarEvents env connection0 startDate endDate s =
     (case conn_accessToken connection0 of
        None \<Rightarrow> (Inl typeErrorUndefined, s)
      | Some token \<Rightarrow>
     (case toISOString startDate of
        Inl e \<Rightarrow> (Inl e, s)
      | Inr timeMin \<Rightarrow>
     (case toISOString endDate of
        Inl e \<Rightarrow> (Inl e, s)
      | Inr timeMax \<Rightarrow>
        (let connection = refreshIfExpired env connection0 in
         case fetch env \<lparr>req_api = GoogleCalendar, req_from = timeMin, req_to = timeMax,
                          req_bearer = toStr (conn_accessToken connection)\<rparr> of
           Inl e \<Rightarrow> catchFetchError env e connection s
         | Inr response \<Rightarrow>
             if \<not> ok response then
               (case (if status response = 401 then refreshToken connection else None) of
                  Some refreshedConnection \<Rightarrow>
                    fetchGoogleCalendarEvents env refreshedConnection startDate endDate s
                | None \<Rightarrow> catchFetchError env (googleApiError response) connection s)
             else
               (case bodyJson response of
                  Inl e \<Rightarrow> catchFetchError env e connection s
                | Inr None \<Rightarrow> catchFetchError env typeErrorNull connection s
                | Inr (Some data) \<Rightarrow>
                    (case data_items data of
                       None \<Rightarrow> (Inr [], s)
                     | Some items \<Rightarrow> (Inr (map (googleEvent env) items), s)))))))"
  by pat_completeness auto
termination
  by (relation "{}") (auto simp: refreshToken_def split: if_splits)

declare fetchGoogleCalendarEvents.simps [simp del]

text \<open>
  \<^verbatim>\<open>fetchMicrosoftCalendarEvents\<close>: the whole body is inside the \<^verbatim>\<open>try\<close>, so the
  RangeError of \<^verbatim>\<open>toISOString()\<close> is caught too, and an undefined access token is sent as
  the text \<^verbatim>\<open>undefined\<close>.
\<close>

function fetchMicrosoftCalendarEvents ::
  "Env \<Rightarrow> CalendarConnection \<Rightarrow> Date \<Rightarrow> Date \<Rightarrow> Service \<Rightarrow> (error + CalendarEvent list) \<times> Service" where
  "fetchMicrosoftCalendarEvents env connection0 startDate endDate s =
     (let connection = refreshIfExpired env connection0 in
      case toISOString startDate of
        Inl e \<Rightarrow> catchFetchError env e connection s
      | Inr startTime \<Rightarrow>
     (case toISOString endDate of
        Inl e \<Rightarrow> catchFetchError env e connection s
      | Inr endTime \<Rightarrow>
        (case fetch env \<lparr>req_api = MicrosoftGraph, req_from = startTime, req_to = endTime,
                          req_bearer = toStr (conn_accessToken connection)\<rparr> of
           Inl e \<Rightarrow> catchFetchError env e connection s
         | Inr response \<Rightarrow>
             if \<not> ok response then
               (case (if status response = 401 then refreshToken connection else None) of
                  Some refreshedConnection \<Rightarrow>
                    fetchMicrosoftCalendarEvents env refreshedConnection startDate endDate s
                | None \<Rightarrow> catchFetchError env (microsoftApiError response) connection s)
             else
               (case bodyJson response of
                  Inl e \<Rightarrow> catchFetchError env e connection s
                | Inr None \<Rightarrow> catchFetchError env typeErrorNull connection s
                | Inr (Some data) \<Rightarrow>
                    (case data_value data of
                       None \<Rightarrow> (Inr [], s)
                     | Some items \<Rightarrow> (Inr (map (microsoftEvent env) items), s))))))"
  by pat_completeness auto
termination
  by (relation "{}") (auto simp: refreshToken_def split: if_splits)

declare fetchMicrosoftCalendarEvents.simps [simp del]

subsection \<open>Aggregator\<close>

text \<open>
  The comparator \<^verbatim>\<open>(a, b) => a.start.getTime() - b.start.getTime()\<close>. Time values are
  integers, and the sign of their floating-point difference is the sign of the exact one;
  the difference is NaN (\<open>None\<close>) when either date is invalid.
\<close>

definition compareStart :: "CalendarEvent \<Rightarrow> CalendarEvent \<Rightarrow> int option" where
  "compareStart a b =
     (case ev_start a of
        None \<Rightarrow> None
      | Some x \<Rightarrow> (case ev_start b of None \<Rightarrow> None | Some y \<Rightarrow> Some (x - y)))"

text \<open>
  \<^verbatim>\<open>Array.prototype.sort(comparefn)\<close>. The language treats a NaN result of the comparator
  as \<open>0\<close> and requires the sort to be stable; the model is the stable insertion sort. (With
  a comparator that is not consistent, which can only happen here among invalid dates, the
  language leaves the order to the implementation.)
\<close>

fun sortCompare :: "('a \<Rightarrow> 'a \<Rightarrow> int option) \<Rightarrow> 'a \<Rightarrow> 'a \<Rightarrow> int" where
  "sortCompare comparefn x y = (case comparefn x y of None \<Rightarrow> 0 | Some v \<Rightarrow> v)"

fun insertSorted :: "('a \<Rightarrow> 'a \<Rightarrow> int option) \<Rightarrow> 'a \<Rightarrow> 'a list \<Rightarrow> 'a list" where
  "insertSorted comparefn x [] = [x]"
| "insertSorted comparefn x (y # ys) =
     (if sortCompare comparefn x y \<le> 0 then x # y # ys else y # insertSorted comparefn x ys)"

definition array_sort :: "('a \<Rightarrow> 'a \<Rightarrow> int option) \<Rightarrow> 'a list \<Rightarrow> 'a list" where
  "array_sort comparefn xs = foldr (insertSorted comparefn) xs []"

text \<open>The body of the \<^verbatim>\<open>try\<close> in the loop of \<^verbatim>\<open>getAllCalendarEvents\<close>.\<close>

definition fetchEvents ::
  "Env \<Rightarrow> CalendarConnection \<Rightarrow> Date \<Rightarrow> Date \<Rightarrow> Service \<Rightarrow> (error + CalendarEvent list) \<times> Service" where
  "fetchEvents env connection startDate endDate s =
     (if conn_provider connection = ''google''
      then fetchGoogleCalendarEvents env connection startDate endDate s
      else if conn_provider connection = ''microsoft''
      then fetchMicrosoftCalendarEvents env connection startDate endDate s
      else (Inr [], s))"

text \<open>
  The loop \<^verbatim>\<open>for (const connection of this.connections.values())\<close>. A \<^verbatim>\<open>Map\<close> iterator is
  live: it visits the entries in insertion order and skips an entry deleted before it is
  reached. Nothing is inserted during the loop, so the loop runs over the keys present at
  its start and looks each one up in the current table. A fetch that throws is caught and
  adds nothing.
\<close>

fun forEachConnection ::
  "Env \<Rightarrow> Date \<Rightarrow> Date \<Rightarrow> string list \<Rightarrow> CalendarEvent list \<Rightarrow> Service \<Rightarrow> CalendarEvent list \<times> Service" where
  "forEachConnection env startDate endDate [] allEvents s = (allEvents, s)"
| "forEachConnection env startDate endDate (k # ks) allEvents s =
     (case map_of (connections s) k of
        None \<Rightarrow> forEachConnection env startDate endDate ks allEvents s
      | Some connection \<Rightarrow>
          (case fetchEvents env connection startDate endDate s of
             (Inl e, s') \<Rightarrow> forEachConnection env startDate endDate ks allEvents s'
           | (Inr events, s') \<Rightarrow> forEachConnection env startDate endDate ks (allEvents @ events) s'))"

text \<open>\<^verbatim>\<open>getAllCalendarEvents\<close>: no statement outside the loop's \<^verbatim>\<open>try\<close> can throw.\<close>

definition getAllCalendarEvents :: "Env \<Rightarrow> Date \<Rightarrow> Date \<Rightarrow> Service \<Rightarrow> CalendarEvent list \<times> Service" where
  "getAllCalendarEvents env startDate endDate s =
     (case forEachConnection env startDate endDate (map fst (connections s)) [] s of
        (allEvents, s') \<Rightarrow> (array_sort compareStart allEvents, s'))"

subsection \<open>Creating connections\<close>

text \<open>The template literals \<^verbatim>\<open>`${providerId}-${user.uid}`\<close> and \<^verbatim>\<open>`${providerId}-${authData.uid}`\<close>.\<close>

definition connectionId :: "string \<Rightarrow> string \<Rightarrow> string" where
  "connectionId providerId userId = providerId @ ''-'' @ userId"

text \<open>\<^verbatim>\<open>getProviderIdFromUser\<close>: the loop over \<^verbatim>\<open>user.providerData\<close>, then the fallback.\<close>

fun knownProvider :: "string list \<Rightarrow> string option" where
  "knownProvider [] = None"
| "knownProvider (p # ps) =
     (if p = ''google.com'' then Some ''google''
      else if p = ''microsoft.com'' then Some ''microsoft''
      else knownProvider ps)"

definition getProviderIdFromUser :: "User \<Rightarrow> error + string" where
  "getProviderIdFromUser u =
     (case knownProvider (providerData u) of
        Some providerId \<Rightarrow> Inr providerId
      | None \<Rightarrow>
          (case providerData u of
             [] \<Rightarrow> Inl (Error ''Could not determine provider from user data'')
           | firstProvider # rest \<Rightarrow>
               if str_includes firstProvider ''google'' then Inr ''google''
               else if str_includes firstProvider ''microsoft'' then Inr ''microsoft''
               else Inl (Error ''Could not determine provider from user data'')))"

text \<open>
  The token extraction of \<^verbatim>\<open>processAuthResult\<close>: an error of \<^verbatim>\<open>credentialFromResult\<close>
  skips the fallback and leaves the token empty; an error of \<^verbatim>\<open>getIdToken\<close> is logged.
\<close>

definition extractAccessToken :: "UserCredential \<Rightarrow> User \<Rightarrow> string \<Rightarrow> string" where
  "extractAccessToken result u providerId =
     (case (if providerId = ''google'' then googleCredential result
            else if providerId = ''microsoft'' then oauthCredential result
            else Inr None) of
        Inl credError \<Rightarrow> []
      | Inr credentialToken \<Rightarrow>
          (let accessToken = orElse credentialToken [] in
           if accessToken = []
           then (case getIdToken u of Inl tokenError \<Rightarrow> [] | Inr idToken \<Rightarrow> idToken)
           else accessToken))"

text \<open>
  \<^verbatim>\<open>processAuthResult\<close>: the table is written before the connection is saved, and an
  error of the save leaves the function.
\<close>

definition processAuthResult ::
  "Env \<Rightarrow> UserCredential option \<Rightarrow> Service \<Rightarrow> (error + CalendarConnection) \<times> Service" where
  "processAuthResult env result s =
     (case result of
        None \<Rightarrow> (Inl (Error ''Authentication failed - no result received''), s)
      | Some r \<Rightarrow>
     (case user r of
        None \<Rightarrow> (Inl (Error ''Authentication failed - no result received''), s)
      | Some u \<Rightarrow>
     (case getProviderIdFromUser u of
        Inl e \<Rightarrow> (Inl e, s)
      | Inr providerId \<Rightarrow>
          (let accessToken = extractAccessToken r u providerId in
           if accessToken = []
           then (Inl (Error ''Failed to get access token from authentication result''), s)
           else
             (let connection =
                    \<lparr>conn_id = connectionId providerId (uid u),
                     conn_provider = providerId,
                     conn_email = Some (orElse (email u) []),
                     conn_accessToken = Some accessToken,
                     conn_refreshToken = None,
                     conn_expiresAt = now env + 3600 * 1000,
                     conn_connectedAt = now env\<rparr>;
                  s1 = s\<lparr>connections := AList.update (conn_id connection) connection (connections s)\<rparr>
              in case saveConnectionToBackend env connection s1 of
                   Inl e \<Rightarrow> (Inl e, s1)
                 | Inr s2 \<Rightarrow> (Inr connection, s2))))))"

text \<open>
  \<^verbatim>\<open>processAuthToken\<close>: every error inside the \<^verbatim>\<open>try\<close> (decoding, the provider check, the
  save) is replaced by the same error.
\<close>

definition invalidTokenError :: error where
  "invalidTokenError = Error ''Invalid token format. Please try authentication again.''"

definition processAuthToken ::
  "Env \<Rightarrow> string \<Rightarrow> string \<Rightarrow> Service \<Rightarrow> (error + CalendarConnection) \<times> Service" where
  "processAuthToken env providerId token s =
     (case decodeToken env token of
        Inl decodeError \<Rightarrow> (Inl invalidTokenError, s)
      | Inr authData \<Rightarrow>
          if ad_provider authData \<noteq> Some providerId then (Inl invalidTokenError, s)
          else
            (let connection =
                   \<lparr>conn_id = connectionId providerId (toStr (ad_uid authData)),
                    conn_provider = providerId,
                    conn_email = ad_email authData,
                    conn_accessToken = ad_accessToken authData,
                    conn_refreshToken = None,
                    conn_expiresAt = now env + 3600 * 1000,
                    conn_connectedAt = now env\<rparr>;
                 s1 = s\<lparr>connections := AList.update (conn_id connection) connection (connections s)\<rparr>
             in case saveConnectionToBackend env connection s1 of
                  Inl e \<Rightarrow> (Inl invalidTokenError, s1)
                | Inr s2 \<Rightarrow> (Inr connection, s2)))"

text \<open>\<^verbatim>\<open>`${redirectError}`\<close>\<close>

fun errorToString :: "error \<Rightarrow> string" where
  "errorToString (Error m) = ''Error: '' @ m"
| "errorToString (FirebaseError c m) = ''FirebaseError: '' @ m"

text \<open>
  \<^verbatim>\<open>connectProvider\<close>. In the Tauri shell the inner \<^verbatim>\<open>try\<close> always ends by throwing
  \<^verbatim>\<open>AUTH_TOKEN_NEEDED\<close>, whether the browser opened or not.
\<close>

definition connectProvider ::
  "Env \<Rightarrow> string \<Rightarrow> Service \<Rightarrow> (error + CalendarConnection) \<times> Service" where
  "connectProvider env providerId s =
     (if providerId \<noteq> ''google'' \<and> providerId \<noteq> ''microsoft''
      then (Inl (Error (''Provider '' @ providerId @ '' not supported'')), s)
      else
        (case (if isTauri env then Inl (Error (''AUTH_TOKEN_NEEDED:'' @ providerId))
               else signInWithPopup env providerId) of
           Inr result \<Rightarrow> processAuthResult env (Some result) s
         | Inl popupError \<Rightarrow>
             if errorCode popupError = ''auth/popup-blocked''
                \<or> errorCode popupError = ''auth/popup-closed-by-user''
                \<or> str_includes (message popupError) ''popup''
             then
               (if isTauri env
                then
                  (let redirectError =
                         (case signInWithRedirect env providerId of
                            Some e \<Rightarrow> e
                          | None \<Rightarrow> Error ''Redirect initiated. Please wait for the authentication to complete.'')
                   in (Inl (Error (''Authentication failed. Please try again. Error: ''
                                   @ errorToString redirectError)), s))
                else
                  (case signInWithRedirect env providerId of
                     Some e \<Rightarrow> (Inl e, s)
                   | None \<Rightarrow> (Inl (Error ''Redirect initiated. The page will reload after authentication.''), s)))
             else (Inl popupError, s)))"

text \<open>\<^verbatim>\<open>loadConnections\<close>: an error of the bridge is logged and the table is left as it is.\<close>

definition intToString :: "int \<Rightarrow> string" where
  "intToString i = (if i < 0 then ''-'' @ numberToString (nat (- i)) else numberToString (nat i))"

definition recordConnection :: "Env \<Rightarrow> ConnectionRecord \<Rightarrow> CalendarConnection" where
  "recordConnection env conn =
     \<lparr>conn_id = orElse (r_id conn) (r_provider conn @ ''-'' @ intToString (now env)),
      conn_provider = r_provider conn,
      conn_email = account_name conn,
      conn_accessToken = access_token conn,
      conn_refreshToken = (if truthy (refresh_token conn) then refresh_token conn else None),
      conn_expiresAt = (if expires_at conn \<noteq> 0 then expires_at conn else now env + 3600 * 1000),
      conn_connectedAt = (if connected_at conn \<noteq> 0 then connected_at conn else now env)\<rparr>"

definition loadConnections :: "Env \<Rightarrow> Service \<Rightarrow> Service" where
  "loadConnections env s =
     (case bridgeError env of
        Some e \<Rightarrow> s
      | None \<Rightarrow>
          s\<lparr>connections :=
              fold (\<lambda>conn table. AList.update (conn_id (recordConnection env conn)) (recordConnection env conn) table)
                   (credentialStore s) []\<rparr>)"

subsection \<open>The connection table as shared objects\<close>

text \<open>
  A \<^verbatim>\<open>Map\<close> holds references to connection objects, and so does the array
  \<^verbatim>\<open>getConnections\<close> returns. Where a caller writes through the returned value, the
  objects live in a heap, the table maps each id to a reference, and the table of values
  used above is what the manager reads through its references.
\<close>

type_synonym ref = nat

type_synonym heap = "ref \<Rightarrow> CalendarConnection"

record Manager =
  table :: "(string \<times> ref) list"

definition managerState :: "heap \<Rightarrow> Manager \<Rightarrow> (string \<times> CalendarConnection) list" where
  "managerState h m = map (\<lambda>(k, r). (k, h r)) (table m)"

text \<open>
  \<^verbatim>\<open>Array.from(this.connections.values())\<close>: a new array of the same references. An
  element of a JavaScript array is a reference or a hole (\<open>None\<close>).
\<close>

definition getConnectionsArray :: "Manager \<Rightarrow> ref option list" where
  "getConnectionsArray m = map (\<lambda>(k, r). Some r) (table m)"

text \<open>
  What a caller can do with the array: \<^verbatim>\<open>push\<close>, \<^verbatim>\<open>pop\<close>, \<^verbatim>\<open>a[i] = r\<close> (beyond the end
  the array grows, leaving holes), \<^verbatim>\<open>a.length = n\<close>, and an update of the fields of the
  object \<^verbatim>\<open>a[i]\<close> (on a hole or beyond the end that throws and changes nothing).
\<close>

datatype mutation =
    Push ref
  | Pop
  | SetElement nat ref
  | SetLength nat
  | WriteRecord nat "CalendarConnection \<Rightarrow> CalendarConnection"

fun mutate :: "mutation \<Rightarrow> ref option list \<times> heap \<Rightarrow> ref option list \<times> heap" where
  "mutate (Push r) (a, h) = (a @ [Some r], h)"
| "mutate Pop (a, h) = (butlast a, h)"
| "mutate (SetElement i r) (a, h) =
     (if i < length a then a[i := Some r] else a @ replicate (i - length a) None @ [Some r], h)"
| "mutate (SetLength n) (a, h) =
     (if n \<le> length a then take n a else a @ replicate (n - length a) None, h)"
| "mutate (WriteRecord i f) (a, h) =
     (if i < length a
      then (case a ! i of Some r \<Rightarrow> (a, h(r := f (h r))) | None \<Rightarrow> (a, h))
      else (a, h))"

text \<open>A mutation writes to a connection object of the manager.\<close>

fun writesManaged :: "Manager \<Rightarrow> mutation \<Rightarrow> ref option list \<Rightarrow> bool" where
  "writesManaged m (WriteRecord i f) a =
     (i < length a \<and> (case a ! i of Some r \<Rightarrow> r \<in> snd ` set (table m) | None \<Rightarrow> False))"
| "writesManaged m other a = False"

text \<open>No step of a sequence of mutations writes to a connection object of the manager.\<close>

fun sparesManaged :: "Manager \<Rightarrow> mutation list \<Rightarrow> ref option list \<times> heap \<Rightarrow> bool" where
  "sparesManaged m [] (a, h) = True"
| "sparesManaged m (mu # mus) (a, h) =
     (\<not> writesManaged m mu a \<and> sparesManaged m mus (mutate mu (a, h)))"

subsection \<open>Properties of states and results\<close>

text \<open>
  The invariant of the table: every entry is stored under its own id. (The keys of a
  \<^verbatim>\<open>Map\<close> are distinct.) Every \<^verbatim>\<open>set\<close> in the source is
  \<^verbatim>\<open>this.connections.set(connection.id, connection)\<close>.
\<close>

definition tableInv :: "Service \<Rightarrow> bool" where
  "tableInv s =
     (distinct (map fst (connections s)) \<and> list_all (\<lambda>(k, c). conn_id c = k) (connections s))"

text \<open>
  The state after \<^verbatim>\<open>this.connections.set(connection.id, connection)\<close> and a save of the
  connection that went through.
\<close>

definition stored :: "CalendarConnection \<Rightarrow> Service \<Rightarrow> Service" where
  "stored connection s =
     s\<lparr>connections := AList.update (conn_id connection) connection (connections s),
       credentialStore := store_upsert (connectionRecord connection) (credentialStore s)\<rparr>"

text \<open>What the loop of \<^verbatim>\<open>getAllCalendarEvents\<close> adds for one outcome of a fetch.\<close>

fun collected :: "error + CalendarEvent list \<Rightarrow> CalendarEvent list" where
  "collected (Inl e) = []"
| "collected (Inr events) = events"

text \<open>The time value of the start of an event (an Invalid Date has none).\<close>

definition startMillis :: "CalendarEvent \<Rightarrow> int" where
  "startMillis e = (case ev_start e of Some t \<Rightarrow> t | None \<Rightarrow> 0)"

subsection \<open>An example environment\<close>

text \<open>
  Two accounts, Ann's at Google and Bob's at Microsoft, with two events each on
  2024-05-01; the dates \<^verbatim>\<open>new Date\<close> parses are given in milliseconds since the epoch.
  The transport answers by bearer token: \<^verbatim>\<open>token-old\<close> is rejected with 401,
  \<^verbatim>\<open>token-x\<close> meets a server error, any other token finds no network.
\<close>

definition exampleDates :: "string \<Rightarrow> Date" where
  "exampleDates str =
     map_of [(''2024-05-01T10:00:00Z'', 1714557600000),
             (''2024-05-01T10:30:00Z'', 1714559400000),
             (''2024-05-01'', 1714521600000),
             (''2024-05-02'', 1714608000000),
             (''2024-05-01T09:00:00.0000000'', 1714554000000),
             (''2024-05-01T10:00:00.0000000'', 1714557600000),
             (''2024-05-01T11:00:00.0000000'', 1714561200000)] str"

definition standup :: GoogleItem where
  "standup =
     \<lparr>g_id = ''g1'', g_summary = Some ''Standup'',
      g_start = \<lparr>dateTime = Some ''2024-05-01T10:00:00Z'', date = None\<rparr>,
      g_end = \<lparr>dateTime = Some ''2024-05-01T10:30:00Z'', date = None\<rparr>,
      g_description = None, g_location = Some ''Room 1''\<rparr>"

definition holiday :: GoogleItem where
  "holiday =
     \<lparr>g_id = ''g2'', g_summary = None,
      g_start = \<lparr>dateTime = None, date = Some ''2024-05-01''\<rparr>,
      g_end = \<lparr>dateTime = None, date = Some ''2024-05-02''\<rparr>,
      g_description = None, g_location = None\<rparr>"

definition review :: MicrosoftItem where
  "review =
     \<lparr>m_id = ''m1'', m_subject = Some ''Review'',
      m_start = ''2024-05-01T09:00:00.0000000'', m_end = ''2024-05-01T10:00:00.0000000'',
      m_isAllDay = False, m_bodyPreview = Some ''Agenda'', m_location = None\<rparr>"

definition planning :: MicrosoftItem where
  "planning =
     \<lparr>m_id = ''m2'', m_subject = Some ''Planning'',
      m_start = ''2024-05-01T10:00:00.0000000'', m_end = ''2024-05-01T11:00:00.0000000'',
      m_isAllDay = False, m_bodyPreview = None,
      m_location = Some \<lparr>displayName = Some ''Room 2''\<rparr>\<rparr>"

definition exampleFetch :: "Request \<Rightarrow> error + Response" where
  "exampleFetch request =
     (if req_bearer request = ''token-g'' then
        Inr \<lparr>status = 200, bodyText = [],
             bodyJson = Inr (Some \<lparr>data_items = Some [standup, holiday], data_value = None\<rparr>)\<rparr>
      else if req_bearer request = ''token-m'' then
        Inr \<lparr>status = 200, bodyText = [],
             bodyJson = Inr (Some \<lparr>data_items = None, data_value = Some [review, planning]\<rparr>)\<rparr>
      else if req_bearer request = ''token-old'' then
        Inr \<lparr>status = 401, bodyText = ''Unauthorized'',
             bodyJson = Inr (Some \<lparr>data_items = None, data_value = None\<rparr>)\<rparr>
      else if req_bearer request = ''token-x'' then
        Inr \<lparr>status = 500, bodyText = ''Server Error'',
             bodyJson = Inl (Error ''Unexpected token S in JSON'')\<rparr>
      else Inl (Error ''Failed to fetch''))"

definition annPayload :: AuthData where
  "annPayload =
     \<lparr>ad_provider = Some ''google'', ad_email = Some ''ann@example.com'',
      ad_uid = Some ''u1'', ad_accessToken = Some ''token-g''\<rparr>"

definition bobPayload :: AuthData where
  "bobPayload =
     \<lparr>ad_provider = Some ''microsoft'', ad_email = Some ''bob@example.com'',
      ad_uid = Some ''u2'', ad_accessToken = Some ''token-m''\<rparr>"

text \<open>
  \<^verbatim>\<open>ann\<close> and \<^verbatim>\<open>bob\<close> stand for the encoded payloads of the two accounts; any other text
  is not base64.
\<close>

definition exampleDecode :: "string \<Rightarrow> error + AuthData" where
  "exampleDecode token =
     (if token = ''ann'' then Inr annPayload
      else if token = ''bob'' then Inr bobPayload
      else Inl (Error ''The string to be decoded is not correctly encoded.''))"

definition annUser :: User where
  "annUser =
     \<lparr>uid = ''u1'', email = Some ''ann@example.com'',
      providerData = [''google.com''], getIdToken = Inr ''id-token''\<rparr>"

definition annCredential :: UserCredential where
  "annCredential =
     \<lparr>user = Some annUser,
      googleCredential = Inr (Some ''token-g''),
      oauthCredential = Inr None\<rparr>"

definition exampleSignIn :: "string \<Rightarrow> error + UserCredential" where
  "exampleSignIn providerId =
     (if providerId = ''google'' then Inr annCredential
      else Inl (FirebaseError ''auth/popup-closed-by-user'' ''The popup has been closed''))"

definition exampleEnv :: Env where
  "exampleEnv =
     \<lparr>now = 1714550000000,
      fetch = exampleFetch,
      newDate = exampleDates,
      importError = None,
      invokeError = None,
      decodeToken = exampleDecode,
      isTauri = False,
      signInWithPopup = exampleSignIn,
      signInWithRedirect = (\<lambda>providerId. None)\<rparr>"

definition annGoogle :: CalendarConnection where
  "annGoogle =
     \<lparr>conn_id = ''google-u1'', conn_provider = ''google'', conn_email = Some ''ann@example.com'',
      conn_accessToken = Some ''token-g'', conn_refreshToken = None,
      conn_expiresAt = 1714553600000, conn_connectedAt = 1714550000000\<rparr>"

definition bobMicrosoft :: CalendarConnection where
  "bobMicrosoft =
     \<lparr>conn_id = ''microsoft-u2'', conn_provider = ''microsoft'', conn_email = Some ''bob@example.com'',
      conn_accessToken = Some ''token-m'', conn_refreshToken = None,
      conn_expiresAt = 1714553600000, conn_connectedAt = 1714550000000\<rparr>"

definition emptyService :: Service where
  "emptyService = \<lparr>connections = [], credentialStore = []\<rparr>"

definition twoAccounts :: Service where
  "twoAccounts =
     \<lparr>connections = [(''google-u1'', annGoogle), (''microsoft-u2'', bobMicrosoft)],
      credentialStore = []\<rparr>"

definition dayStart :: Date where
  "dayStart = Some 1714521600000"

definition dayEnd :: Date where
  "dayEnd = Some 1714608000000"

text \<open>
  Further accounts: one whose payload had no access token, two whose token the provider
  rejects, two that meet a server error, and a stored record of a provider the service
  does not know.
\<close>

definition noTokenGoogle :: CalendarConnection where
  "noTokenGoogle =
     \<lparr>conn_id = ''google-u3'', conn_provider = ''google'', conn_email = Some ''cy@example.com'',
      conn_accessToken = None, conn_refreshToken = None,
      conn_expiresAt = 1714553600000, conn_connectedAt = 1714550000000\<rparr>"

definition noTokenAndBob :: Service where
  "noTokenAndBob =
     \<lparr>connections = [(''google-u3'', noTokenGoogle), (''microsoft-u2'', bobMicrosoft)],
      credentialStore = []\<rparr>"

definition annRecord :: ConnectionRecord where
  "annRecord =
     \<lparr>r_id = Some ''google-u1'', r_provider = ''google'', account_name = Some ''ann@example.com'',
      access_token = Some ''token-g'', refresh_token = None,
      expires_at = 1714553600000, connected_at = 1714550000000\<rparr>"

definition appleRecord :: ConnectionRecord where
  "appleRecord =
     \<lparr>r_id = Some ''apple-u9'', r_provider = ''apple'', account_name = Some ''dee@example.com'',
      access_token = Some ''token-a'', refresh_token = None,
      expires_at = 0, connected_at = 1714540000000\<rparr>"

definition appleConnection :: CalendarConnection where
  "appleConnection =
     \<lparr>conn_id = ''apple-u9'', conn_provider = ''apple'', conn_email = Some ''dee@example.com'',
      conn_accessToken = Some ''token-a'', conn_refreshToken = None,
      conn_expiresAt = 1714553600000, conn_connectedAt = 1714540000000\<rparr>"

definition storedAccounts :: Service where
  "storedAccounts = \<lparr>connections = [], credentialStore = [annRecord, appleRecord]\<rparr>"

definition staleGoogle :: CalendarConnection where
  "staleGoogle =
     \<lparr>conn_id = ''google-u4'', conn_provider = ''google'', conn_email = Some ''eve@example.com'',
      conn_accessToken = Some ''token-old'', conn_refreshToken = Some ''refresh-1'',
      conn_expiresAt = 1714000000000, conn_connectedAt = 1713996400000\<rparr>"

definition staleMicrosoft :: CalendarConnection where
  "staleMicrosoft =
     \<lparr>conn_id = ''microsoft-u5'', conn_provider = ''microsoft'', conn_email = Some ''fay@example.com'',
      conn_accessToken = Some ''token-old'', conn_refreshToken = None,
      conn_expiresAt = 1714000000000, conn_connectedAt = 1713996400000\<rparr>"

definition staleAccounts :: Service where
  "staleAccounts =
     \<lparr>connections = [(''google-u4'', staleGoogle), (''microsoft-u5'', staleMicrosoft),
                       (''microsoft-u2'', bobMicrosoft)],
      credentialStore = []\<rparr>"

definition brokenGoogle :: CalendarConnection where
  "brokenGoogle =
     \<lparr>conn_id = ''google-u6'', conn_provider = ''google'', conn_email = Some ''gus@example.com'',
      conn_accessToken = Some ''token-x'', conn_refreshToken = None,
      conn_expiresAt = 1714553600000, conn_connectedAt = 1714550000000\<rparr>"

definition brokenMicrosoft :: CalendarConnection where
  "brokenMicrosoft =
     \<lparr>conn_id = ''microsoft-u7'', conn_provider = ''microsoft'', conn_email = Some ''hal@example.com'',
      conn_accessToken = Some ''token-x'', conn_refreshToken = None,
      conn_expiresAt = 1714553600000, conn_connectedAt = 1714550000000\<rparr>"

definition brokenAccounts :: Service where
  "brokenAccounts =
     \<lparr>connections = [(''google-u6'', brokenGoogle), (''microsoft-u7'', brokenMicrosoft)],
      credentialStore = []\<rparr>"

definition serverError :: Response where
  "serverError =
     \<lparr>status = 500, bodyText = ''Server Error'',
      bodyJson = Inl (Error ''Unexpected token S in JSON'')\<rparr>"

definition unauthorized :: Response where
  "unauthorized =
     \<lparr>status = 401, bodyText = ''Unauthorized'',
      bodyJson = Inr (Some \<lparr>data_items = None, data_value = None\<rparr>)\<rparr>"

text \<open>
  An all-day event at Microsoft, the state after Ann connected, a state in which Ann's
  connection has expired, and a heap with the two connection objects of
  \<^const>\<open>twoAccounts\<close> for the table of references.
\<close>

definition offsite :: MicrosoftItem where
  "offsite =
     \<lparr>m_id = ''m3'', m_subject = None,
      m_start = ''2024-05-01T00:00:00.0000000'', m_end = ''2024-05-02T00:00:00.0000000'',
      m_isAllDay = True, m_bodyPreview = None, m_location = None\<rparr>"

definition annConnected :: Service where
  "annConnected = \<lparr>connections = [(''google-u1'', annGoogle)], credentialStore = [annRecord]\<rparr>"

definition annExpired :: CalendarConnection where
  "annExpired =
     \<lparr>conn_id = ''google-u1'', conn_provider = ''google'', conn_email = Some ''ann@example.com'',
      conn_accessToken = Some ''token-old'', conn_refreshToken = None,
      conn_expiresAt = 1714000000000, conn_connectedAt = 1713996400000\<rparr>"

definition annExpiredAndBob :: Service where
  "annExpiredAndBob =
     \<lparr>connections = [(''google-u1'', annExpired), (''microsoft-u2'', bobMicrosoft)],
      credentialStore = [connectionRecord annExpired, connectionRecord bobMicrosoft]\<rparr>"

definition exampleHeap :: heap where
  "exampleHeap r = (if r = 0 then annGoogle else bobMicrosoft)"

definition exampleManager :: Manager where
  "exampleManager = \<lparr>table = [(''google-u1'', 0), (''microsoft-u2'', 1)]\<rparr>"

definition overwriteToken :: "CalendarConnection \<Rightarrow> CalendarConnection" where
  "overwriteToken c = c\<lparr>conn_accessToken := Some ''changed''\<rparr>"

section \<open>Properties\<close>

subsection \<open>The fetchers without the retry\<close>

text \<open>
  The refresh never yields a connection, so the retry branch of the fetchers is never
  taken and each fetcher is the straight-line function below.
\<close>

lemma refreshToken_None [simp]: "refreshToken connection = None"
  by (simp add: refreshToken_def)

lemma refreshIfExpired_same [simp]: "refreshIfExpired env connection = connection"
  by (simp add: refreshIfExpired_def)

lemma fetchGoogle_unfold:
  "fetchGoogleCalendarEvents env connection startDate endDate s =
     (case conn_accessToken connection of
        None \<Rightarrow> (Inl typeErrorUndefined, s)
      | Some token \<Rightarrow>
     (case toISOString startDate of
        Inl e \<Rightarrow> (Inl e, s)
      | Inr timeMin \<Rightarrow>
     (case toISOString endDate of
        Inl e \<Rightarrow> (Inl e, s)
      | Inr timeMax \<Rightarrow>
        (case fetch env \<lparr>req_api = GoogleCalendar, req_from = timeMin, req_to = timeMax,
                          req_bearer = toStr (conn_accessToken connection)\<rparr> of
           Inl e \<Rightarrow> catchFetchError env e connection s
         | Inr response \<Rightarrow>
             if \<not> ok response then catchFetchError env (googleApiError response) connection s
             else
               (case bodyJson response of
                  Inl e \<Rightarrow> catchFetchError env e connection s
                | Inr None \<Rightarrow> catchFetchError env typeErrorNull connection s
                | Inr (Some data) \<Rightarrow>
                    (case data_items data of
                       None \<Rightarrow> (Inr [], s)
                     | Some items \<Rightarrow> (Inr (map (googleEvent env) items), s)))))))"
  by (subst fetchGoogleCalendarEvents.simps) (simp split: option.splits sum.splits)

lemma fetchMicrosoft_unfold:
  "fetchMicrosoftCalendarEvents env connection startDate endDate s =
     (case toISOString startDate of
        Inl e \<Rightarrow> catchFetchError env e connection s
      | Inr startTime \<Rightarrow>
     (case toISOString endDate of
        Inl e \<Rightarrow> catchFetchError env e connection s
      | Inr endTime \<Rightarrow>
        (case fetch env \<lparr>req_api = MicrosoftGraph, req_from = startTime, req_to = endTime,
                          req_bearer = toStr (conn_accessToken connection)\<rparr> of
           Inl e \<Rightarrow> catchFetchError env e connection s
         | Inr response \<Rightarrow>
             if \<not> ok response then catchFetchError env (microsoftApiError response) connection s
             else
               (case bodyJson response of
                  Inl e \<Rightarrow> catchFetchError env e connection s
                | Inr None \<Rightarrow> catchFetchError env typeErrorNull connection s
                | Inr (Some data) \<Rightarrow>
                    (case data_value data of
                       None \<Rightarrow> (Inr [], s)
                     | Some items \<Rightarrow> (Inr (map (microsoftEvent env) items), s))))))"
  by (subst fetchMicrosoftCalendarEvents.simps) (simp split: option.splits sum.splits)

lemma catchFetchError_fst: "fst (catchFetchError env e c s) = Inr []"
  by (simp add: catchFetchError_def)

lemma catchFetchError_snd: "snd (catchFetchError env e c s) = s \<or> snd (catchFetchError env e c s) = removeConnection env (conn_id c) s"
  by (simp add: catchFetchError_def)

lemma fetchGoogle_fst_indep:
  "fst (fetchGoogleCalendarEvents env c sd ed s) = fst (fetchGoogleCalendarEvents env c sd ed s')"
  by (simp add: fetchGoogle_unfold catchFetchError_fst split: option.splits sum.splits)

lemma fetchGoogle_snd:
  "snd (fetchGoogleCalendarEvents env c sd ed s) = s \<or>
   snd (fetchGoogleCalendarEvents env c sd ed s) = removeConnection env (conn_id c) s"
  using catchFetchError_snd by (simp add: fetchGoogle_unfold split: option.splits sum.splits)

lemma fetchMicrosoft_fst_indep:
  "fst (fetchMicrosoftCalendarEvents env c sd ed s) = fst (fetchMicrosoftCalendarEvents env c sd ed s')"
  by (simp add: fetchMicrosoft_unfold catchFetchError_fst split: option.splits sum.splits)

lemma fetchMicrosoft_snd:
  "snd (fetchMicrosoftCalendarEvents env c sd ed s) = s \<or>
   snd (fetchMicrosoftCalendarEvents env c sd ed s) = removeConnection env (conn_id c) s"
  using catchFetchError_snd by (simp add: fetchMicrosoft_unfold split: option.splits sum.splits)

subsection \<open>The sort\<close>

text \<open>
  The sort returns a permutation of its input. On events with valid start dates the
  comparator is the order of the time values, and the sort is the stable sort by that key.
\<close>

lemma mset_insertSorted: "mset (insertSorted cmp x ys) = add_mset x (mset ys)"
  by (induction ys) auto

lemma mset_array_sort: "mset (array_sort cmp xs) = mset xs"
  by (induction xs) (auto simp: array_sort_def mset_insertSorted)

lemma length_array_sort: "length (array_sort cmp xs) = length xs"
  using mset_array_sort [of cmp xs] by (metis size_mset)

lemma set_array_sort: "set (array_sort cmp xs) = set xs"
  using mset_array_sort [of cmp xs] by (metis set_mset_mset)

lemma insertSorted_insort:
  "ev_start x \<noteq> None \<Longrightarrow> \<forall>y\<in>set ys. ev_start y \<noteq> None \<Longrightarrow>
   insertSorted compareStart x ys = insort_key startMillis x ys"
  by (induction ys) (auto simp: compareStart_def startMillis_def split: option.splits)

lemma array_sort_sort_key:
  "\<forall>e\<in>set xs. ev_start e \<noteq> None \<Longrightarrow> array_sort compareStart xs = sort_key startMillis xs"
proof (induction xs)
  case Nil
  then show ?case by (simp add: array_sort_def)
next
  case (Cons x xs)
  have "array_sort compareStart (x # xs) = insertSorted compareStart x (array_sort compareStart xs)"
    by (simp add: array_sort_def)
  also have "\<dots> = insertSorted compareStart x (sort_key startMillis xs)"
    using Cons by simp
  also have "\<dots> = insort_key startMillis x (sort_key startMillis xs)"
    using Cons.prems by (intro insertSorted_insort) auto
  finally show ?case by simp
qed

lemma sorted_array_sort:
  assumes "\<forall>e\<in>set xs. ev_start e \<noteq> None"
  shows "sorted (map startMillis (array_sort compareStart xs))"
  by (simp add: array_sort_sort_key [OF assms])

lemma stable_array_sort:
  assumes "\<forall>e\<in>set xs. ev_start e \<noteq> None"
  shows "filter (\<lambda>e. startMillis e = t) (array_sort compareStart xs) = filter (\<lambda>e. startMillis e = t) xs"
  by (simp add: array_sort_sort_key [OF assms] sort_key_stable)

subsection \<open>The loop of the aggregator\<close>

text \<open>
  The events a fetch returns do not depend on the state, and a fetch changes the state at
  most by removing its own connection. So on a table that satisfies the invariant the loop
  visits every connection once, and the result is the sort of the events collected in the
  order of the table.
\<close>

lemma fetchEvents_fst_indep:
  "fst (fetchEvents env c sd ed s) = fst (fetchEvents env c sd ed s')"
  using fetchGoogle_fst_indep [of env c sd ed s s'] fetchMicrosoft_fst_indep [of env c sd ed s s']
  by (simp add: fetchEvents_def)

lemma fetchEvents_snd:
  "snd (fetchEvents env c sd ed s) = s \<or> snd (fetchEvents env c sd ed s) = removeConnection env (conn_id c) s"
  using fetchGoogle_snd [of env c sd ed s] fetchMicrosoft_snd [of env c sd ed s]
  by (simp add: fetchEvents_def)

lemma fetchEvents_lookup:
  assumes "k' \<noteq> conn_id c"
  shows "map_of (connections (snd (fetchEvents env c sd ed s))) k' = map_of (connections s) k'"
  using fetchEvents_snd [of env c sd ed s] assms
  by (auto simp: removeConnection_def)

lemma forEachConnection_step:
  assumes "map_of (connections s) k = Some c"
  shows "forEachConnection env sd ed (k # ks) acc s =
         forEachConnection env sd ed ks (acc @ collected (fst (fetchEvents env c sd ed s)))
           (snd (fetchEvents env c sd ed s))"
  using assms by (cases "fetchEvents env c sd ed s") (auto split: sum.splits)

lemma forEachConnection_events:
  assumes "distinct ks"
    and "\<forall>k\<in>set ks. map_of (connections s) k = Some (f k) \<and> conn_id (f k) = k"
  shows "fst (forEachConnection env sd ed ks acc s) =
         acc @ concat (map (\<lambda>k. collected (fst (fetchEvents env (f k) sd ed s0))) ks)"
  using assms
proof (induction ks arbitrary: acc s)
  case Nil
  then show ?case by simp
next
  case (Cons k ks)
  let ?s' = "snd (fetchEvents env (f k) sd ed s)"
  have look: "map_of (connections s) k = Some (f k)" and idk: "conn_id (f k) = k"
    using Cons.prems by auto
  have rest: "\<forall>k'\<in>set ks. map_of (connections ?s') k' = Some (f k') \<and> conn_id (f k') = k'"
  proof
    fix k' assume k': "k' \<in> set ks"
    then have "k' \<noteq> conn_id (f k)" using Cons.prems(1) idk by auto
    then have "map_of (connections ?s') k' = map_of (connections s) k'"
      by (rule fetchEvents_lookup)
    then show "map_of (connections ?s') k' = Some (f k') \<and> conn_id (f k') = k'"
      using Cons.prems(2) k' by simp
  qed
  have "fst (forEachConnection env sd ed (k # ks) acc s) =
        fst (forEachConnection env sd ed ks (acc @ collected (fst (fetchEvents env (f k) sd ed s))) ?s')"
    by (simp only: forEachConnection_step [OF look])
  also have "\<dots> = (acc @ collected (fst (fetchEvents env (f k) sd ed s))) @
        concat (map (\<lambda>k. collected (fst (fetchEvents env (f k) sd ed s0))) ks)"
    using Cons.prems(1) rest by (intro Cons.IH) auto
  also have "fst (fetchEvents env (f k) sd ed s) = fst (fetchEvents env (f k) sd ed s0)"
    by (rule fetchEvents_fst_indep)
  finally show ?case by simp
qed

lemma tableInv_lookup:
  assumes "tableInv s" and "(k, c) \<in> set (connections s)"
  shows "map_of (connections s) k = Some c \<and> conn_id c = k"
  using assms by (auto simp: tableInv_def list_all_iff)

lemma getAllCalendarEvents_events:
  assumes "tableInv s"
  shows "fst (getAllCalendarEvents env sd ed s) =
         array_sort compareStart
           (concat (map (\<lambda>c. collected (fst (fetchEvents env c sd ed s))) (getConnections s)))"
proof -
  let ?f = "\<lambda>k. the (map_of (connections s) k)"
  have d: "distinct (map fst (connections s))" using assms by (simp add: tableInv_def)
  have look: "\<forall>k\<in>set (map fst (connections s)). map_of (connections s) k = Some (?f k) \<and> conn_id (?f k) = k"
    using tableInv_lookup [OF assms] by fastforce
  have vals: "map ?f (map fst (connections s)) = map snd (connections s)"
    using tableInv_lookup [OF assms] by auto
  have "fst (forEachConnection env sd ed (map fst (connections s)) [] s) =
        concat (map (\<lambda>k. collected (fst (fetchEvents env (?f k) sd ed s))) (map fst (connections s)))"
    using forEachConnection_events [OF d look, of env sd ed "[]" s] by simp
  also have "\<dots> = concat (map (\<lambda>c. collected (fst (fetchEvents env c sd ed s))) (map ?f (map fst (connections s))))"
    by (simp add: comp_def)
  also have "\<dots> = concat (map (\<lambda>c. collected (fst (fetchEvents env c sd ed s))) (getConnections s))"
    by (simp only: vals getConnections_def)
  finally have "fst (forEachConnection env sd ed (map fst (connections s)) [] s) =
        concat (map (\<lambda>c. collected (fst (fetchEvents env c sd ed s))) (getConnections s))" .
  then show ?thesis
    by (simp add: getAllCalendarEvents_def split_beta)
qed

lemma tableInv_two:
  assumes "connections s = [(conn_id a, a), (conn_id b, b)]" and "conn_id a \<noteq> conn_id b"
  shows "tableInv s"
  using assms by (simp add: tableInv_def)

lemma two_connections_events:
  assumes table: "connections s = [(conn_id a, a), (conn_id b, b)]"
    and ids: "conn_id a \<noteq> conn_id b"
    and fa: "fst (fetchEvents env a sd ed s) = Inr eventsA"
    and fb: "fst (fetchEvents env b sd ed s) = Inr eventsB"
  shows "fst (getAllCalendarEvents env sd ed s) = array_sort compareStart (eventsA @ eventsB)"
  using getAllCalendarEvents_events [OF tableInv_two [OF table ids], of env sd ed] fa fb
  by (simp add: getConnections_def table)

subsection \<open>The example\<close>

lemma annGoogle_fetch:
  "fetchGoogleCalendarEvents exampleEnv annGoogle dayStart dayEnd s =
     (Inr [googleEvent exampleEnv standup, googleEvent exampleEnv holiday], s)"
  by (simp add: fetchGoogle_unfold annGoogle_def dayStart_def dayEnd_def exampleEnv_def
      exampleFetch_def ok_def)

lemma bobMicrosoft_fetch:
  "fetchMicrosoftCalendarEvents exampleEnv bobMicrosoft dayStart dayEnd s =
     (Inr [microsoftEvent exampleEnv review, microsoftEvent exampleEnv planning], s)"
  by (simp add: fetchMicrosoft_unfold bobMicrosoft_def dayStart_def dayEnd_def exampleEnv_def
      exampleFetch_def ok_def)

lemma example_starts:
  "ev_start (googleEvent exampleEnv standup) = Some 1714557600000"
  "ev_start (googleEvent exampleEnv holiday) = Some 1714521600000"
  "ev_start (microsoftEvent exampleEnv review) = Some 1714554000000"
  "ev_start (microsoftEvent exampleEnv planning) = Some 1714557600000"
  by (simp_all add: googleEvent_def microsoftEvent_def exampleEnv_def exampleDates_def
      standup_def holiday_def review_def planning_def)

lemma example_result:
  "fst (getAllCalendarEvents exampleEnv dayStart dayEnd twoAccounts) =
   [googleEvent exampleEnv holiday, microsoftEvent exampleEnv review,
    googleEvent exampleEnv standup, microsoftEvent exampleEnv planning]"
proof -
  have t: "connections twoAccounts = [(conn_id annGoogle, annGoogle), (conn_id bobMicrosoft, bobMicrosoft)]"
    by (simp add: twoAccounts_def annGoogle_def bobMicrosoft_def)
  have i: "conn_id annGoogle \<noteq> conn_id bobMicrosoft"
    by (simp add: annGoogle_def bobMicrosoft_def)
  have g: "fst (fetchEvents exampleEnv annGoogle dayStart dayEnd twoAccounts) =
     Inr [googleEvent exampleEnv standup, googleEvent exampleEnv holiday]"
    by (simp add: fetchEvents_def annGoogle_fetch) (simp add: annGoogle_def)
  have m: "fst (fetchEvents exampleEnv bobMicrosoft dayStart dayEnd twoAccounts) =
     Inr [microsoftEvent exampleEnv review, microsoftEvent exampleEnv planning]"
    by (simp add: fetchEvents_def bobMicrosoft_fetch) (simp add: bobMicrosoft_def)
  show ?thesis
    by (simp add: two_connections_events [OF t i g m] array_sort_def compareStart_def example_starts)
qed

subsection \<open>Token refresh\<close>

text \<open>
  C6. For every connection the refresh reports that it is unavailable
  (\<^verbatim>\<open>refreshToken\<close> returns \<^verbatim>\<open>null\<close>, never a connection), so the step the fetchers take on
  an expired token leaves the connection, and with it the access token, as it was.
\<close>

theorem refresh_always_unavailable:
  "refreshToken connection = None \<and> refreshIfExpired env connection = connection"
  by (simp add: refreshToken_def refreshIfExpired_def)

subsection \<open>Aggregation\<close>

text \<open>
  C1. The table holds one Google and one Microsoft connection, in either order, and
  their fetches return the lists \<open>eventsG\<close> (N events) and \<open>eventsM\<close> (M events) for the same
  date range. Then \<^verbatim>\<open>getAllCalendarEvents\<close> returns exactly N + M events. The events being
  normalized events as the data model has them, each with a start time (a valid date),
  the result is sorted ascending by start time, and the sort is stable: the events of any
  one start time keep the order in which they were fetched.
\<close>

theorem aggregate_two_connections:
  assumes "conn_provider g = ''google''" and "conn_provider m = ''microsoft''"
    and "conn_id g \<noteq> conn_id m"
    and "connections s = [(conn_id g, g), (conn_id m, m)] \<or>
         connections s = [(conn_id m, m), (conn_id g, g)]"
    and "fst (fetchGoogleCalendarEvents env g startDate endDate s) = Inr eventsG"
    and "fst (fetchMicrosoftCalendarEvents env m startDate endDate s) = Inr eventsM"
  shows "let result = fst (getAllCalendarEvents env startDate endDate s);
             fetched = (if connections s = [(conn_id g, g), (conn_id m, m)]
                        then eventsG @ eventsM else eventsM @ eventsG)
         in length result = length eventsG + length eventsM \<and>
            ((\<forall>e\<in>set fetched. ev_start e \<noteq> None) \<longrightarrow>
               sorted (map startMillis result) \<and>
               (\<forall>t. filter (\<lambda>e. startMillis e = t) result = filter (\<lambda>e. startMillis e = t) fetched))"
proof -
  have fg: "fst (fetchEvents env g startDate endDate s) = Inr eventsG"
    using assms(1,5) by (simp add: fetchEvents_def)
  have fm: "fst (fetchEvents env m startDate endDate s) = Inr eventsM"
    using assms(2,6) by (simp add: fetchEvents_def)
  show ?thesis
  proof (cases "connections s = [(conn_id g, g), (conn_id m, m)]")
    case True
    have "fst (getAllCalendarEvents env startDate endDate s) = array_sort compareStart (eventsG @ eventsM)"
      by (rule two_connections_events [OF True assms(3) fg fm])
    then show ?thesis
      using True sorted_array_sort [of "eventsG @ eventsM"] stable_array_sort [of "eventsG @ eventsM"]
      by (simp add: Let_def length_array_sort)
  next
    case False
    then have other: "connections s = [(conn_id m, m), (conn_id g, g)]"
      using assms(4) by simp
    have "fst (getAllCalendarEvents env startDate endDate s) = array_sort compareStart (eventsM @ eventsG)"
      by (rule two_connections_events [OF other assms(3) [symmetric] fm fg])
    then show ?thesis
      using False sorted_array_sort [of "eventsM @ eventsG"] stable_array_sort [of "eventsM @ eventsG"]
      by (simp add: Let_def length_array_sort)
  qed
qed

text \<open>
  Ann's Google account and Bob's Microsoft account: four events, sorted; the stand-up and
  the planning meeting start at the same time and keep the order in which they were fetched.
\<close>

theorem aggregate_two_connections_witness:
  "conn_provider annGoogle = ''google'' \<and> conn_provider bobMicrosoft = ''microsoft'' \<and>
   conn_id annGoogle \<noteq> conn_id bobMicrosoft \<and>
   connections twoAccounts = [(conn_id annGoogle, annGoogle), (conn_id bobMicrosoft, bobMicrosoft)] \<and>
   fst (fetchGoogleCalendarEvents exampleEnv annGoogle dayStart dayEnd twoAccounts) =
     Inr [googleEvent exampleEnv standup, googleEvent exampleEnv holiday] \<and>
   fst (fetchMicrosoftCalendarEvents exampleEnv bobMicrosoft dayStart dayEnd twoAccounts) =
     Inr [microsoftEvent exampleEnv review, microsoftEvent exampleEnv planning] \<and>
   ev_start (googleEvent exampleEnv standup) = Some 1714557600000 \<and>
   ev_start (googleEvent exampleEnv holiday) = Some 1714521600000 \<and>
   ev_start (microsoftEvent exampleEnv review) = Some 1714554000000 \<and>
   ev_start (microsoftEvent exampleEnv planning) = Some 1714557600000 \<and>
   length (fst (getAllCalendarEvents exampleEnv dayStart dayEnd twoAccounts)) = 4 \<and>
   sorted (map startMillis (fst (getAllCalendarEvents exampleEnv dayStart dayEnd twoAccounts))) \<and>
   fst (getAllCalendarEvents exampleEnv dayStart dayEnd twoAccounts) =
     [googleEvent exampleEnv holiday, microsoftEvent exampleEnv review,
      googleEvent exampleEnv standup, microsoftEvent exampleEnv planning]"
proof -
  have p: "conn_provider annGoogle = ''google''" "conn_provider bobMicrosoft = ''microsoft''"
    by (simp_all add: annGoogle_def bobMicrosoft_def)
  have i: "conn_id annGoogle \<noteq> conn_id bobMicrosoft"
    by (simp add: annGoogle_def bobMicrosoft_def)
  have t: "connections twoAccounts = [(conn_id annGoogle, annGoogle), (conn_id bobMicrosoft, bobMicrosoft)]"
    by (simp add: twoAccounts_def annGoogle_def bobMicrosoft_def)
  have g: "fst (fetchGoogleCalendarEvents exampleEnv annGoogle dayStart dayEnd twoAccounts) =
     Inr [googleEvent exampleEnv standup, googleEvent exampleEnv holiday]"
    by (simp add: annGoogle_fetch)
  have m: "fst (fetchMicrosoftCalendarEvents exampleEnv bobMicrosoft dayStart dayEnd twoAccounts) =
     Inr [microsoftEvent exampleEnv review, microsoftEvent exampleEnv planning]"
    by (simp add: bobMicrosoft_fetch)
  have d: "connections twoAccounts = [(conn_id annGoogle, annGoogle), (conn_id bobMicrosoft, bobMicrosoft)] \<or>
           connections twoAccounts = [(conn_id bobMicrosoft, bobMicrosoft), (conn_id annGoogle, annGoogle)]"
    using t by simp
  show ?thesis
    using aggregate_two_connections [OF p i d g m] p i t g m
    by (simp add: Let_def example_starts example_result)
qed

lemma contribution_subset:
  "x \<in> set xs \<Longrightarrow> mset (g x) \<subseteq># mset (concat (map g xs))"
proof (induction xs)
  case Nil
  then show ?case by simp
next
  case (Cons y ys)
  show ?case
  proof (cases "x = y")
    case True
    then show ?thesis by simp
  next
    case False
    then have "mset (g x) \<subseteq># mset (concat (map g ys))"
      using Cons by simp
    then show ?thesis
      by (simp add: subset_mset.add_increasing)
  qed
qed

text \<open>
  C2. The table is any set of connections (each stored under its id). When the fetch for
  one connection raises, the aggregate call still returns: its result holds exactly the
  events of the connections whose fetch returned (in particular all events of every other
  connection, so it is not empty when one of them has events). The call itself cannot
  raise: \<^const>\<open>getAllCalendarEvents\<close> is total and has no error result.
\<close>

theorem failing_fetch_is_contained:
  assumes "tableInv s"
    and "failing \<in> set (getConnections s)"
    and "fst (fetchEvents env failing startDate endDate s) = Inl e"
    and "other \<in> set (getConnections s)"
    and "fst (fetchEvents env other startDate endDate s) = Inr events"
  shows "let result = fst (getAllCalendarEvents env startDate endDate s)
         in mset result =
              mset (concat (map (\<lambda>c. collected (fst (fetchEvents env c startDate endDate s)))
                                (getConnections s))) \<and>
            mset events \<subseteq># mset result \<and>
            (events \<noteq> [] \<longrightarrow> result \<noteq> [])"
proof -
  let ?g = "\<lambda>c. collected (fst (fetchEvents env c startDate endDate s))"
  have all: "mset (fst (getAllCalendarEvents env startDate endDate s)) =
        mset (concat (map ?g (getConnections s)))"
    by (simp add: getAllCalendarEvents_events [OF assms(1)] mset_array_sort)
  have "mset (?g other) \<subseteq># mset (concat (map ?g (getConnections s)))"
    using assms(4) by (rule contribution_subset)
  then have sub: "mset events \<subseteq># mset (fst (getAllCalendarEvents env startDate endDate s))"
    using all assms(5) by simp
  have "fst (getAllCalendarEvents env startDate endDate s) \<noteq> []" if "events \<noteq> []"
    using sub that by auto
  then show ?thesis
    using all sub by (simp add: Let_def)
qed

lemma noTokenGoogle_fetch:
  "fetchGoogleCalendarEvents env noTokenGoogle sd ed s = (Inl typeErrorUndefined, s)"
  by (simp add: fetchGoogle_unfold noTokenGoogle_def)

lemma noTokenAndBob_result:
  "fst (getAllCalendarEvents exampleEnv dayStart dayEnd noTokenAndBob) =
     [microsoftEvent exampleEnv review, microsoftEvent exampleEnv planning]"
proof -
  have inv: "tableInv noTokenAndBob"
    by (simp add: tableInv_def noTokenAndBob_def noTokenGoogle_def bobMicrosoft_def)
  have g: "getConnections noTokenAndBob = [noTokenGoogle, bobMicrosoft]"
    by (simp add: getConnections_def noTokenAndBob_def)
  have p: "conn_provider noTokenGoogle = ''google''" "conn_provider bobMicrosoft = ''microsoft''"
    by (simp_all add: noTokenGoogle_def bobMicrosoft_def)
  show ?thesis
    by (simp add: getAllCalendarEvents_events [OF inv] g fetchEvents_def p noTokenGoogle_fetch
        bobMicrosoft_fetch array_sort_def compareStart_def example_starts)
qed

text \<open>
  A Google connection without access token (its fetch raises a TypeError) next to Bob's
  account: Bob's two events are returned.
\<close>

theorem failing_fetch_is_contained_witness:
  "tableInv noTokenAndBob \<and>
   noTokenGoogle \<in> set (getConnections noTokenAndBob) \<and>
   fst (fetchEvents exampleEnv noTokenGoogle dayStart dayEnd noTokenAndBob) = Inl typeErrorUndefined \<and>
   bobMicrosoft \<in> set (getConnections noTokenAndBob) \<and>
   fst (fetchEvents exampleEnv bobMicrosoft dayStart dayEnd noTokenAndBob) =
     Inr [microsoftEvent exampleEnv review, microsoftEvent exampleEnv planning] \<and>
   mset [microsoftEvent exampleEnv review, microsoftEvent exampleEnv planning]
     \<subseteq># mset (fst (getAllCalendarEvents exampleEnv dayStart dayEnd noTokenAndBob)) \<and>
   fst (getAllCalendarEvents exampleEnv dayStart dayEnd noTokenAndBob) =
     [microsoftEvent exampleEnv review, microsoftEvent exampleEnv planning]"
proof -
  have inv: "tableInv noTokenAndBob"
    by (simp add: tableInv_def noTokenAndBob_def noTokenGoogle_def bobMicrosoft_def)
  have a: "noTokenGoogle \<in> set (getConnections noTokenAndBob)"
    and b: "bobMicrosoft \<in> set (getConnections noTokenAndBob)"
    by (simp_all add: getConnections_def noTokenAndBob_def)
  have fa: "fst (fetchEvents exampleEnv noTokenGoogle dayStart dayEnd noTokenAndBob) = Inl typeErrorUndefined"
    by (simp add: fetchEvents_def noTokenGoogle_fetch) (simp add: noTokenGoogle_def)
  have fb: "fst (fetchEvents exampleEnv bobMicrosoft dayStart dayEnd noTokenAndBob) =
     Inr [microsoftEvent exampleEnv review, microsoftEvent exampleEnv planning]"
    by (simp add: fetchEvents_def bobMicrosoft_fetch) (simp add: bobMicrosoft_def)
  show ?thesis
    using failing_fetch_is_contained [OF inv a fa b fb] inv a b fa fb
    by (simp add: Let_def noTokenAndBob_result)
qed

subsection \<open>Table invariant\<close>

lemma tableInv_delete_table:
  assumes "distinct (map fst tbl)" and "list_all (\<lambda>(k, c). conn_id c = k) tbl"
  shows "distinct (map fst (AList.delete k tbl)) \<and>
         list_all (\<lambda>(k, c). conn_id c = k) (AList.delete k tbl)"
proof
  show "distinct (map fst (AList.delete k tbl))"
    using assms(1) by (rule distinct_delete)
  show "list_all (\<lambda>(k, c). conn_id c = k) (AList.delete k tbl)"
    using assms(2) by (auto simp: list_all_iff AList.delete_eq)
qed

lemma tableInv_delete:
  "tableInv s \<Longrightarrow> tableInv (s\<lparr>connections := AList.delete k (connections s)\<rparr>)"
  using tableInv_delete_table [of "connections s" k] by (simp add: tableInv_def)

lemma tableInv_removeConnection: "tableInv s \<Longrightarrow> tableInv (removeConnection env k s)"
  using tableInv_delete_table [of "connections s" k] by (simp add: tableInv_def removeConnection_def)

lemma removed_absent:
  assumes "tableInv s"
  shows "\<forall>x\<in>set (getConnections (removeConnection env k s)). conn_id x \<noteq> k"
  using assms
  by (auto simp: tableInv_def removeConnection_def getConnections_def list_all_iff AList.delete_eq)

lemma concat_delete:
  assumes "\<forall>(k', c')\<in>set tbl. k' = k \<longrightarrow> g c' = []"
  shows "concat (map g (map snd (AList.delete k tbl))) = concat (map g (map snd tbl))"
  using assms by (induction tbl) (auto simp: AList.delete_eq)

text \<open>
  C10. A connection whose provider is neither \<^verbatim>\<open>google\<close> nor \<^verbatim>\<open>microsoft\<close> (such as one
  loaded from a stored record with another provider string): its turn in the loop of
  \<^verbatim>\<open>getAllCalendarEvents\<close> yields the empty list without an error and without a change
  of state, and the aggregate returns the same events as it would without that
  connection in the table.
\<close>

theorem unknown_provider_contributes_nothing:
  assumes "conn_provider c \<noteq> ''google''" and "conn_provider c \<noteq> ''microsoft''"
  shows "fetchEvents env c startDate endDate s = (Inr [], s) \<and>
         (tableInv s \<and> (k, c) \<in> set (connections s) \<longrightarrow>
            fst (getAllCalendarEvents env startDate endDate s) =
            fst (getAllCalendarEvents env startDate endDate
                   (s\<lparr>connections := AList.delete k (connections s)\<rparr>)))"
proof -
  have none: "fetchEvents env c startDate endDate s' = (Inr [], s')" for s'
    using assms by (simp add: fetchEvents_def)
  let ?s = "s\<lparr>connections := AList.delete k (connections s)\<rparr>"
  let ?g = "\<lambda>c. collected (fst (fetchEvents env c startDate endDate s))"
  have "fst (getAllCalendarEvents env startDate endDate s) =
        fst (getAllCalendarEvents env startDate endDate ?s)"
    if inv: "tableInv s" and mem: "(k, c) \<in> set (connections s)"
  proof -
    have same: "(\<lambda>c. collected (fst (fetchEvents env c startDate endDate ?s))) = ?g"
      using fetchEvents_fst_indep [of env _ startDate endDate ?s s] by auto
    have "?g c' = []" if "(k, c') \<in> set (connections s)" for c'
    proof -
      have "c' = c"
        using tableInv_lookup [OF inv that] tableInv_lookup [OF inv mem] by simp
      then show ?thesis using none by simp
    qed
    then have "\<forall>(k', c')\<in>set (connections s). k' = k \<longrightarrow> ?g c' = []"
      by auto
    then have "concat (map ?g (map snd (AList.delete k (connections s)))) =
               concat (map ?g (map snd (connections s)))"
      by (rule concat_delete)
    then show ?thesis
      by (simp add: getAllCalendarEvents_events [OF inv]
          getAllCalendarEvents_events [OF tableInv_delete [OF inv]] same getConnections_def)
  qed
  then show ?thesis using none by simp
qed

lemma storedAccounts_loaded:
  "loadConnections exampleEnv storedAccounts =
     \<lparr>connections = [(''google-u1'', annGoogle), (''apple-u9'', appleConnection)],
      credentialStore = [annRecord, appleRecord]\<rparr>"
  by (simp add: loadConnections_def bridgeError_def storedAccounts_def exampleEnv_def recordConnection_def
      annRecord_def appleRecord_def annGoogle_def appleConnection_def)

text \<open>
  A stored record of the provider \<^verbatim>\<open>apple\<close>, loaded next to Ann's: the aggregate returns what
  it returns for Ann's connection alone.
\<close>

theorem unknown_provider_contributes_nothing_witness:
  "conn_provider appleConnection \<noteq> ''google'' \<and> conn_provider appleConnection \<noteq> ''microsoft'' \<and>
   tableInv (loadConnections exampleEnv storedAccounts) \<and>
   (''apple-u9'', appleConnection) \<in> set (connections (loadConnections exampleEnv storedAccounts)) \<and>
   fetchEvents exampleEnv appleConnection dayStart dayEnd (loadConnections exampleEnv storedAccounts) =
     (Inr [], loadConnections exampleEnv storedAccounts) \<and>
   fst (getAllCalendarEvents exampleEnv dayStart dayEnd (loadConnections exampleEnv storedAccounts)) =
   fst (getAllCalendarEvents exampleEnv dayStart dayEnd
          \<lparr>connections = [(''google-u1'', annGoogle)], credentialStore = [annRecord, appleRecord]\<rparr>)"
proof -
  have p: "conn_provider appleConnection \<noteq> ''google''" "conn_provider appleConnection \<noteq> ''microsoft''"
    by (simp_all add: appleConnection_def)
  have inv: "tableInv (loadConnections exampleEnv storedAccounts)"
    by (simp add: storedAccounts_loaded tableInv_def annGoogle_def appleConnection_def)
  have mem: "(''apple-u9'', appleConnection) \<in> set (connections (loadConnections exampleEnv storedAccounts))"
    by (simp add: storedAccounts_loaded)
  show ?thesis
    using unknown_provider_contributes_nothing [OF p, of exampleEnv dayStart dayEnd
        "loadConnections exampleEnv storedAccounts" "''apple-u9''"] p inv mem
    by (simp add: storedAccounts_loaded)
qed

subsection \<open>Failed fetches\<close>

lemma numberToString_401: "numberToString 401 = ''401''"
  by (simp add: numberToString.simps digit_def)

lemma numberToString_500: "numberToString 500 = ''500''"
  by (simp add: numberToString.simps digit_def)

lemma includes_middle: "str_includes (p @ n @ r) n"
  unfolding str_includes_def by (rule sublist_appendI)

lemma includes_end: "str_includes (p @ q @ r @ b) b"
  using sublist_append_leftI [of b "p @ q @ r"] by (simp only: str_includes_def append_assoc)

lemma googleApiError_status:
  "str_includes (message (googleApiError response)) (numberToString (status response))"
  unfolding googleApiError_def message.simps by (rule includes_middle)

lemma googleApiError_body:
  "str_includes (message (googleApiError response)) (bodyText response)"
  unfolding googleApiError_def message.simps by (rule includes_end)

lemma microsoftApiError_status:
  "str_includes (message (microsoftApiError response)) (numberToString (status response))"
  unfolding microsoftApiError_def message.simps by (rule includes_middle)

lemma microsoftApiError_body:
  "str_includes (message (microsoftApiError response)) (bodyText response)"
  unfolding microsoftApiError_def message.simps by (rule includes_end)

lemma googleApiError_401:
  "status response = 401 \<Longrightarrow> str_includes (message (googleApiError response)) ''401''"
  using googleApiError_status [of response] by (simp add: numberToString_401)

lemma microsoftApiError_401:
  "status response = 401 \<Longrightarrow> str_includes (message (microsoftApiError response)) ''401''"
  using microsoftApiError_status [of response] by (simp add: numberToString_401)

lemma fetchGoogle_not_ok:
  assumes "conn_accessToken c = Some token"
    and "fetch env \<lparr>req_api = GoogleCalendar, req_from = t1, req_to = t2, req_bearer = token\<rparr> = Inr response"
    and "\<not> ok response"
  shows "fetchGoogleCalendarEvents env c (Some t1) (Some t2) s =
         catchFetchError env (googleApiError response) c s"
  using assms by (simp add: fetchGoogle_unfold)

lemma fetchMicrosoft_not_ok:
  assumes "fetch env \<lparr>req_api = MicrosoftGraph, req_from = t1, req_to = t2,
                        req_bearer = toStr (conn_accessToken c)\<rparr> = Inr response"
    and "\<not> ok response"
  shows "fetchMicrosoftCalendarEvents env c (Some t1) (Some t2) s =
         catchFetchError env (microsoftApiError response) c s"
  using assms by (simp add: fetchMicrosoft_unfold)

lemma not_ok_401: "status response = 401 \<Longrightarrow> \<not> ok response"
  by (simp add: ok_def)

text \<open>
  C3. The provider answers the request of a connection with HTTP 401. The refresh that
  follows never yields a connection, so there is no retry that could succeed: the fetch
  call (Google's, when the connection has an access token, and Microsoft's) returns the
  empty list instead of raising and removes the connection, and no connection with that
  id is listed by \<^verbatim>\<open>getConnections\<close> afterwards.
\<close>

theorem unauthorized_connection_evicted:
  assumes "tableInv s" and "status response = 401"
  shows "(conn_accessToken c = Some token \<and>
          fetch env \<lparr>req_api = GoogleCalendar, req_from = t1, req_to = t2, req_bearer = token\<rparr>
            = Inr response \<longrightarrow>
            fetchGoogleCalendarEvents env c (Some t1) (Some t2) s =
              (Inr [], removeConnection env (conn_id c) s)) \<and>
         (fetch env \<lparr>req_api = MicrosoftGraph, req_from = t1, req_to = t2,
                      req_bearer = toStr (conn_accessToken c)\<rparr> = Inr response \<longrightarrow>
            fetchMicrosoftCalendarEvents env c (Some t1) (Some t2) s =
              (Inr [], removeConnection env (conn_id c) s)) \<and>
         (\<forall>x\<in>set (getConnections (removeConnection env (conn_id c) s)). conn_id x \<noteq> conn_id c)"
proof (intro conjI impI)
  assume "conn_accessToken c = Some token \<and>
          fetch env \<lparr>req_api = GoogleCalendar, req_from = t1, req_to = t2, req_bearer = token\<rparr>
            = Inr response"
  then show "fetchGoogleCalendarEvents env c (Some t1) (Some t2) s =
              (Inr [], removeConnection env (conn_id c) s)"
    using fetchGoogle_not_ok [of c token env t1 t2 response s] not_ok_401 [OF assms(2)]
      googleApiError_401 [OF assms(2)]
    by (simp add: catchFetchError_def)
next
  assume "fetch env \<lparr>req_api = MicrosoftGraph, req_from = t1, req_to = t2,
                      req_bearer = toStr (conn_accessToken c)\<rparr> = Inr response"
  then show "fetchMicrosoftCalendarEvents env c (Some t1) (Some t2) s =
              (Inr [], removeConnection env (conn_id c) s)"
    using fetchMicrosoft_not_ok [of env t1 t2 c response s] not_ok_401 [OF assms(2)]
      microsoftApiError_401 [OF assms(2)]
    by (simp add: catchFetchError_def)
next
  show "\<forall>x\<in>set (getConnections (removeConnection env (conn_id c) s)). conn_id x \<noteq> conn_id c"
    using assms(1) by (rule removed_absent)
qed

lemma staleAccounts_inv: "tableInv staleAccounts"
  by (simp add: tableInv_def staleAccounts_def staleGoogle_def staleMicrosoft_def bobMicrosoft_def)

text \<open>
  Two connections whose token the provider rejects, one of each provider: each fetch
  returns the empty list, and the connection is gone from the table afterwards.
\<close>

theorem unauthorized_connection_evicted_witness:
  "tableInv staleAccounts \<and> status unauthorized = 401 \<and>
   conn_accessToken staleGoogle = Some ''token-old'' \<and>
   fetch exampleEnv \<lparr>req_api = GoogleCalendar, req_from = 1714521600000, req_to = 1714608000000,
                     req_bearer = ''token-old''\<rparr> = Inr unauthorized \<and>
   fetchGoogleCalendarEvents exampleEnv staleGoogle (Some 1714521600000) (Some 1714608000000) staleAccounts =
     (Inr [], removeConnection exampleEnv ''google-u4'' staleAccounts) \<and>
   getConnections (removeConnection exampleEnv ''google-u4'' staleAccounts) = [staleMicrosoft, bobMicrosoft] \<and>
   fetch exampleEnv \<lparr>req_api = MicrosoftGraph, req_from = 1714521600000, req_to = 1714608000000,
                     req_bearer = toStr (conn_accessToken staleMicrosoft)\<rparr> = Inr unauthorized \<and>
   fetchMicrosoftCalendarEvents exampleEnv staleMicrosoft (Some 1714521600000) (Some 1714608000000) staleAccounts =
     (Inr [], removeConnection exampleEnv ''microsoft-u5'' staleAccounts) \<and>
   getConnections (removeConnection exampleEnv ''microsoft-u5'' staleAccounts) = [staleGoogle, bobMicrosoft]"
proof -
  have st: "status unauthorized = 401" by (simp add: unauthorized_def)
  have tok: "conn_accessToken staleGoogle = Some ''token-old''" by (simp add: staleGoogle_def)
  have fg: "fetch exampleEnv \<lparr>req_api = GoogleCalendar, req_from = 1714521600000, req_to = 1714608000000,
                     req_bearer = ''token-old''\<rparr> = Inr unauthorized"
    by (simp add: exampleEnv_def exampleFetch_def unauthorized_def)
  have fm: "fetch exampleEnv \<lparr>req_api = MicrosoftGraph, req_from = 1714521600000, req_to = 1714608000000,
                     req_bearer = toStr (conn_accessToken staleMicrosoft)\<rparr> = Inr unauthorized"
    by (simp add: exampleEnv_def exampleFetch_def unauthorized_def staleMicrosoft_def)
  have ids: "conn_id staleGoogle = ''google-u4''" "conn_id staleMicrosoft = ''microsoft-u5''"
    by (simp_all add: staleGoogle_def staleMicrosoft_def)
  have rest: "getConnections (removeConnection exampleEnv ''google-u4'' staleAccounts) = [staleMicrosoft, bobMicrosoft]"
    "getConnections (removeConnection exampleEnv ''microsoft-u5'' staleAccounts) = [staleGoogle, bobMicrosoft]"
    by (simp_all add: getConnections_def removeConnection_def staleAccounts_def)
  show ?thesis
    using unauthorized_connection_evicted [OF staleAccounts_inv st, of staleGoogle "''token-old''" exampleEnv
        1714521600000 1714608000000]
      unauthorized_connection_evicted [OF staleAccounts_inv st, of staleMicrosoft "''token-old''" exampleEnv
        1714521600000 1714608000000]
      staleAccounts_inv st tok fg fm rest
    by (simp add: ids)
qed

text \<open>
  C4, as the spec states it, fails: the error a fetcher throws for a non-2xx response is
  thrown inside its own \<^verbatim>\<open>try\<close>, whose \<^verbatim>\<open>catch\<close> logs it and returns the empty list.
  Here the provider answers 500 and both fetchers return \<open>[]\<close> to the caller.
\<close>

theorem server_error_is_not_raised:
  "fetch exampleEnv \<lparr>req_api = GoogleCalendar, req_from = 1714521600000, req_to = 1714608000000,
                     req_bearer = ''token-x''\<rparr> = Inr serverError \<and>
   status serverError = 500 \<and>
   fetchGoogleCalendarEvents exampleEnv brokenGoogle dayStart dayEnd brokenAccounts = (Inr [], brokenAccounts) \<and>
   fetchMicrosoftCalendarEvents exampleEnv brokenMicrosoft dayStart dayEnd brokenAccounts = (Inr [], brokenAccounts)"
  by (simp add: fetchGoogle_unfold fetchMicrosoft_unfold exampleEnv_def exampleFetch_def serverError_def
      brokenGoogle_def brokenMicrosoft_def dayStart_def dayEnd_def ok_def catchFetchError_def
      googleApiError_def microsoftApiError_def numberToString_500 str_includes_def sublist_Cons_right)

text \<open>
  C4, amended. For every response with a non-2xx status other than 401, the fetcher
  builds an error whose message contains the HTTP status and the body text
  (\<^const>\<open>googleApiError\<close>, \<^const>\<open>microsoftApiError\<close>), and this error goes to the
  fetcher's own \<^verbatim>\<open>catch\<close> block: the caller receives the empty list, not an error.
\<close>

theorem provider_error_is_caught:
  assumes "\<not> ok response" and "status response \<noteq> 401"
  shows "(conn_accessToken c = Some token \<and>
          fetch env \<lparr>req_api = GoogleCalendar, req_from = t1, req_to = t2, req_bearer = token\<rparr>
            = Inr response \<longrightarrow>
            fetchGoogleCalendarEvents env c (Some t1) (Some t2) s =
              catchFetchError env (googleApiError response) c s \<and>
            fst (fetchGoogleCalendarEvents env c (Some t1) (Some t2) s) = Inr []) \<and>
         (fetch env \<lparr>req_api = MicrosoftGraph, req_from = t1, req_to = t2,
                      req_bearer = toStr (conn_accessToken c)\<rparr> = Inr response \<longrightarrow>
            fetchMicrosoftCalendarEvents env c (Some t1) (Some t2) s =
              catchFetchError env (microsoftApiError response) c s \<and>
            fst (fetchMicrosoftCalendarEvents env c (Some t1) (Some t2) s) = Inr []) \<and>
         str_includes (message (googleApiError response)) (numberToString (status response)) \<and>
         str_includes (message (googleApiError response)) (bodyText response) \<and>
         str_includes (message (microsoftApiError response)) (numberToString (status response)) \<and>
         str_includes (message (microsoftApiError response)) (bodyText response)"
proof (intro conjI impI)
  assume g: "conn_accessToken c = Some token \<and>
          fetch env \<lparr>req_api = GoogleCalendar, req_from = t1, req_to = t2, req_bearer = token\<rparr>
            = Inr response"
  then show run: "fetchGoogleCalendarEvents env c (Some t1) (Some t2) s =
              catchFetchError env (googleApiError response) c s"
    using fetchGoogle_not_ok [of c token env t1 t2 response s] assms(1) by simp
  show "fst (fetchGoogleCalendarEvents env c (Some t1) (Some t2) s) = Inr []"
    by (simp only: run catchFetchError_fst)
next
  assume m: "fetch env \<lparr>req_api = MicrosoftGraph, req_from = t1, req_to = t2,
                      req_bearer = toStr (conn_accessToken c)\<rparr> = Inr response"
  then show run: "fetchMicrosoftCalendarEvents env c (Some t1) (Some t2) s =
              catchFetchError env (microsoftApiError response) c s"
    using fetchMicrosoft_not_ok [of env t1 t2 c response s] assms(1) by simp
  show "fst (fetchMicrosoftCalendarEvents env c (Some t1) (Some t2) s) = Inr []"
    by (simp only: run catchFetchError_fst)
next
  show "str_includes (message (googleApiError response)) (numberToString (status response))"
    by (rule googleApiError_status)
  show "str_includes (message (googleApiError response)) (bodyText response)"
    by (rule googleApiError_body)
  show "str_includes (message (microsoftApiError response)) (numberToString (status response))"
    by (rule microsoftApiError_status)
  show "str_includes (message (microsoftApiError response)) (bodyText response)"
    by (rule microsoftApiError_body)
qed

text \<open>
  The provider answers 500 with the body \<^verbatim>\<open>Server Error\<close>.
\<close>

theorem provider_error_is_caught_witness:
  "\<not> ok serverError \<and> status serverError \<noteq> 401 \<and>
   conn_accessToken brokenGoogle = Some ''token-x'' \<and>
   fetch exampleEnv \<lparr>req_api = GoogleCalendar, req_from = 1714521600000, req_to = 1714608000000,
                     req_bearer = ''token-x''\<rparr> = Inr serverError \<and>
   fetchGoogleCalendarEvents exampleEnv brokenGoogle (Some 1714521600000) (Some 1714608000000) brokenAccounts =
     catchFetchError exampleEnv (googleApiError serverError) brokenGoogle brokenAccounts \<and>
   fst (fetchGoogleCalendarEvents exampleEnv brokenGoogle (Some 1714521600000) (Some 1714608000000)
          brokenAccounts) = Inr [] \<and>
   fetch exampleEnv \<lparr>req_api = MicrosoftGraph, req_from = 1714521600000, req_to = 1714608000000,
                     req_bearer = toStr (conn_accessToken brokenMicrosoft)\<rparr> = Inr serverError \<and>
   fetchMicrosoftCalendarEvents exampleEnv brokenMicrosoft (Some 1714521600000) (Some 1714608000000) brokenAccounts =
     catchFetchError exampleEnv (microsoftApiError serverError) brokenMicrosoft brokenAccounts \<and>
   fst (fetchMicrosoftCalendarEvents exampleEnv brokenMicrosoft (Some 1714521600000) (Some 1714608000000)
          brokenAccounts) = Inr [] \<and>
   message (googleApiError serverError) = ''Google Calendar API error: 500 - Server Error'' \<and>
   message (microsoftApiError serverError) = ''Microsoft Graph API error: 500 - Server Error'' \<and>
   str_includes (message (googleApiError serverError)) ''500'' \<and>
   str_includes (message (googleApiError serverError)) ''Server Error'' \<and>
   str_includes (message (microsoftApiError serverError)) ''500'' \<and>
   str_includes (message (microsoftApiError serverError)) ''Server Error''"
proof -
  have nok: "\<not> ok serverError" and st: "status serverError \<noteq> 401"
    by (simp_all add: ok_def serverError_def)
  have tok: "conn_accessToken brokenGoogle = Some ''token-x''"
    by (simp add: brokenGoogle_def)
  have fg: "fetch exampleEnv \<lparr>req_api = GoogleCalendar, req_from = 1714521600000, req_to = 1714608000000,
                     req_bearer = ''token-x''\<rparr> = Inr serverError"
    by (simp add: exampleEnv_def exampleFetch_def serverError_def)
  have fm: "fetch exampleEnv \<lparr>req_api = MicrosoftGraph, req_from = 1714521600000, req_to = 1714608000000,
                     req_bearer = toStr (conn_accessToken brokenMicrosoft)\<rparr> = Inr serverError"
    by (simp add: exampleEnv_def exampleFetch_def serverError_def brokenMicrosoft_def)
  have msg: "message (googleApiError serverError) = ''Google Calendar API error: 500 - Server Error''"
    "message (microsoftApiError serverError) = ''Microsoft Graph API error: 500 - Server Error''"
    by (simp_all add: googleApiError_def microsoftApiError_def serverError_def numberToString_500)
  have body: "numberToString (status serverError) = ''500''" "bodyText serverError = ''Server Error''"
    by (simp_all add: serverError_def numberToString_500)
  note google = provider_error_is_caught [OF nok st, of brokenGoogle "''token-x''" exampleEnv
        1714521600000 1714608000000 brokenAccounts]
  note microsoft = provider_error_is_caught [OF nok st, of brokenMicrosoft "''token-x''" exampleEnv
        1714521600000 1714608000000 brokenAccounts]
  have g: "fetchGoogleCalendarEvents exampleEnv brokenGoogle (Some 1714521600000) (Some 1714608000000) brokenAccounts =
     catchFetchError exampleEnv (googleApiError serverError) brokenGoogle brokenAccounts"
    "fst (fetchGoogleCalendarEvents exampleEnv brokenGoogle (Some 1714521600000) (Some 1714608000000)
          brokenAccounts) = Inr []"
    using google tok fg by blast+
  have m: "fetchMicrosoftCalendarEvents exampleEnv brokenMicrosoft (Some 1714521600000) (Some 1714608000000) brokenAccounts =
     catchFetchError exampleEnv (microsoftApiError serverError) brokenMicrosoft brokenAccounts"
    "fst (fetchMicrosoftCalendarEvents exampleEnv brokenMicrosoft (Some 1714521600000) (Some 1714608000000)
          brokenAccounts) = Inr []"
    using microsoft fm by blast+
  have inc: "str_includes (message (googleApiError serverError)) ''500''"
    "str_includes (message (googleApiError serverError)) ''Server Error''"
    "str_includes (message (microsoftApiError serverError)) ''500''"
    "str_includes (message (microsoftApiError serverError)) ''Server Error''"
    using google by (simp_all only: body)
  show ?thesis
    using nok st tok fg fm g m msg inc by (intro conjI)
qed

subsection \<open>Manual tokens\<close>

text \<open>
  C5. A token that cannot be decoded (\<^verbatim>\<open>atob\<close> or \<^verbatim>\<open>JSON.parse\<close> throws), and a token
  whose decoded payload names another provider than the requested one (or none):
  \<^verbatim>\<open>processAuthToken\<close> raises the invalid-token error and leaves the state, that is the
  table and the Credential Store, as it was.
\<close>

theorem invalid_token_changes_nothing:
  assumes "isl (decodeToken env token) \<or>
           (\<exists>authData. decodeToken env token = Inr authData \<and> ad_provider authData \<noteq> Some providerId)"
  shows "processAuthToken env providerId token s = (Inl invalidTokenError, s)"
  using assms by (auto simp: processAuthToken_def isl_def)

text \<open>
  A text that is not base64, and Bob's Microsoft token submitted for Google.
\<close>

theorem invalid_token_changes_nothing_witness:
  "isl (decodeToken exampleEnv ''not base64'') \<and>
   processAuthToken exampleEnv ''google'' ''not base64'' twoAccounts = (Inl invalidTokenError, twoAccounts) \<and>
   decodeToken exampleEnv ''bob'' = Inr bobPayload \<and> ad_provider bobPayload \<noteq> Some ''google'' \<and>
   processAuthToken exampleEnv ''google'' ''bob'' twoAccounts = (Inl invalidTokenError, twoAccounts)"
proof -
  have bad: "isl (decodeToken exampleEnv ''not base64'')"
    by (simp add: exampleEnv_def exampleDecode_def)
  have bob: "decodeToken exampleEnv ''bob'' = Inr bobPayload"
    by (simp add: exampleEnv_def exampleDecode_def)
  have other: "ad_provider bobPayload \<noteq> Some ''google''"
    by (simp add: bobPayload_def)
  have mismatch: "\<exists>authData. decodeToken exampleEnv ''bob'' = Inr authData \<and> ad_provider authData \<noteq> Some ''google''"
    using bob other by blast
  show ?thesis
    using invalid_token_changes_nothing [of exampleEnv "''not base64''" "''google''" twoAccounts]
      invalid_token_changes_nothing [of exampleEnv "''bob''" "''google''" twoAccounts]
      bad bob other mismatch
    by simp
qed

text \<open>
  A third way to the same error lies outside C5: when the payload is well-formed and of the
  requested provider but the save fails (the bridge throws, or the payload has no access
  token), the table has been written before the error is raised.
\<close>

lemma processAuthToken_save_fails:
  assumes "decodeToken env token = Inr authData" and "ad_provider authData = Some providerId"
    and "importError env \<noteq> None \<or> ad_accessToken authData = None \<or> invokeError env \<noteq> None"
  shows "fst (processAuthToken env providerId token s) = Inl invalidTokenError \<and>
         map_of (connections (snd (processAuthToken env providerId token s)))
           (connectionId providerId (toStr (ad_uid authData))) \<noteq> None"
  using assms
  by (auto simp: processAuthToken_def Let_def saveConnectionToBackend_def update_conv'
      split: option.splits)

subsection \<open>Normalization\<close>

lemma fetchGoogle_events:
  assumes "fst (fetchGoogleCalendarEvents env c sd ed s) = Inr events"
  shows "\<exists>items. events = map (googleEvent env) items"
  using assms
  by (auto simp: fetchGoogle_unfold catchFetchError_def split: option.splits sum.splits if_splits)

lemma fetchMicrosoft_events:
  assumes "fst (fetchMicrosoftCalendarEvents env c sd ed s) = Inr events"
  shows "\<exists>items. events = map (microsoftEvent env) items"
  using assms
  by (auto simp: fetchMicrosoft_unfold catchFetchError_def split: option.splits sum.splits if_splits)

text \<open>
  C9. A Google item whose start carries a date (a non-empty \<^verbatim>\<open>date\<close> string) is
  normalized to an event with \<^verbatim>\<open>isAllDay = true\<close>, one whose start has no \<^verbatim>\<open>date\<close> field
  (a timed event, with a \<^verbatim>\<open>dateTime\<close>) to one with \<^verbatim>\<open>isAllDay = false\<close>; a Microsoft
  item is normalized to an event with the value of its \<^verbatim>\<open>isAllDay\<close> flag. Every event a
  fetcher returns is the normalization of an item, so this holds for every normalized
  event.
\<close>

theorem all_day_detection:
  "(date (g_start gItem) = Some d \<and> d \<noteq> [] \<longrightarrow> ev_isAllDay (googleEvent env gItem)) \<and>
   (date (g_start gItem) = None \<longrightarrow> \<not> ev_isAllDay (googleEvent env gItem)) \<and>
   (m_isAllDay mItem \<longrightarrow> ev_isAllDay (microsoftEvent env mItem)) \<and>
   (\<not> m_isAllDay mItem \<longrightarrow> \<not> ev_isAllDay (microsoftEvent env mItem)) \<and>
   (fst (fetchGoogleCalendarEvents env c startDate endDate s) = Inr events \<and> e \<in> set events \<longrightarrow>
      (\<exists>item. e = googleEvent env item \<and> ev_isAllDay e = truthy (date (g_start item)))) \<and>
   (fst (fetchMicrosoftCalendarEvents env c startDate endDate s) = Inr events \<and> e \<in> set events \<longrightarrow>
      (\<exists>item. e = microsoftEvent env item \<and> ev_isAllDay e = m_isAllDay item))"
proof (intro conjI impI)
  assume "fst (fetchGoogleCalendarEvents env c startDate endDate s) = Inr events \<and> e \<in> set events"
  then obtain items where "events = map (googleEvent env) items" and "e \<in> set events"
    using fetchGoogle_events by blast
  then obtain item where "e = googleEvent env item" by auto
  then show "\<exists>item. e = googleEvent env item \<and> ev_isAllDay e = truthy (date (g_start item))"
    by (auto simp: googleEvent_def)
next
  assume "fst (fetchMicrosoftCalendarEvents env c startDate endDate s) = Inr events \<and> e \<in> set events"
  then obtain items where "events = map (microsoftEvent env) items" and "e \<in> set events"
    using fetchMicrosoft_events by blast
  then obtain item where "e = microsoftEvent env item" by auto
  then show "\<exists>item. e = microsoftEvent env item \<and> ev_isAllDay e = m_isAllDay item"
    by (auto simp: microsoftEvent_def)
qed (simp_all add: googleEvent_def microsoftEvent_def)

text \<open>
  The events of the example: Ann's holiday is an all-day event, her stand-up is not; the
  off-site day at Microsoft is one, Bob's review is not.
\<close>

theorem all_day_detection_witness:
  "date (g_start holiday) = Some ''2024-05-01'' \<and> ''2024-05-01'' \<noteq> [] \<and>
   ev_isAllDay (googleEvent exampleEnv holiday) \<and>
   date (g_start standup) = None \<and> \<not> ev_isAllDay (googleEvent exampleEnv standup) \<and>
   m_isAllDay offsite \<and> ev_isAllDay (microsoftEvent exampleEnv offsite) \<and>
   \<not> m_isAllDay review \<and> \<not> ev_isAllDay (microsoftEvent exampleEnv review) \<and>
   fst (fetchGoogleCalendarEvents exampleEnv annGoogle dayStart dayEnd twoAccounts) =
     Inr [googleEvent exampleEnv standup, googleEvent exampleEnv holiday] \<and>
   googleEvent exampleEnv holiday \<in> set [googleEvent exampleEnv standup, googleEvent exampleEnv holiday] \<and>
   (\<exists>item. googleEvent exampleEnv holiday = googleEvent exampleEnv item \<and>
      ev_isAllDay (googleEvent exampleEnv holiday) = truthy (date (g_start item))) \<and>
   fst (fetchMicrosoftCalendarEvents exampleEnv bobMicrosoft dayStart dayEnd twoAccounts) =
     Inr [microsoftEvent exampleEnv review, microsoftEvent exampleEnv planning] \<and>
   microsoftEvent exampleEnv review \<in> set [microsoftEvent exampleEnv review, microsoftEvent exampleEnv planning] \<and>
   (\<exists>item. microsoftEvent exampleEnv review = microsoftEvent exampleEnv item \<and>
      ev_isAllDay (microsoftEvent exampleEnv review) = m_isAllDay item)"
proof -
  have h: "date (g_start holiday) = Some ''2024-05-01''" "date (g_start standup) = None"
    "m_isAllDay offsite" "\<not> m_isAllDay review"
    by (simp_all add: holiday_def standup_def offsite_def review_def)
  have g: "fst (fetchGoogleCalendarEvents exampleEnv annGoogle dayStart dayEnd twoAccounts) =
     Inr [googleEvent exampleEnv standup, googleEvent exampleEnv holiday]"
    by (simp add: annGoogle_fetch)
  have m: "fst (fetchMicrosoftCalendarEvents exampleEnv bobMicrosoft dayStart dayEnd twoAccounts) =
     Inr [microsoftEvent exampleEnv review, microsoftEvent exampleEnv planning]"
    by (simp add: bobMicrosoft_fetch)
  note google = all_day_detection [of holiday "''2024-05-01''" exampleEnv offsite annGoogle dayStart dayEnd
        twoAccounts "[googleEvent exampleEnv standup, googleEvent exampleEnv holiday]"
        "googleEvent exampleEnv holiday"]
  note microsoft = all_day_detection [of standup "''2024-05-01''" exampleEnv review bobMicrosoft dayStart dayEnd
        twoAccounts "[microsoftEvent exampleEnv review, microsoftEvent exampleEnv planning]"
        "microsoftEvent exampleEnv review"]
  have items: "ev_isAllDay (googleEvent exampleEnv holiday)" "\<not> ev_isAllDay (googleEvent exampleEnv standup)"
    "ev_isAllDay (microsoftEvent exampleEnv offsite)" "\<not> ev_isAllDay (microsoftEvent exampleEnv review)"
    using google microsoft h by simp_all
  have ge: "\<exists>item. googleEvent exampleEnv holiday = googleEvent exampleEnv item \<and>
      ev_isAllDay (googleEvent exampleEnv holiday) = truthy (date (g_start item))"
    using google g by simp
  have me: "\<exists>item. microsoftEvent exampleEnv review = microsoftEvent exampleEnv item \<and>
      ev_isAllDay (microsoftEvent exampleEnv review) = m_isAllDay item"
    using microsoft m by simp
  show ?thesis
    using h g m items ge me by simp
qed

subsection \<open>Creating connections\<close>

lemma list_all_update:
  "list_all P al \<Longrightarrow> P (k, v) \<Longrightarrow> list_all P (AList.update k v al)"
  by (induction al) auto

lemma tableInv_update:
  assumes "tableInv s" and "conn_id c = k"
  shows "tableInv (s\<lparr>connections := AList.update k c (connections s)\<rparr>)"
proof -
  have "distinct (map fst (AList.update k c (connections s)))"
    using assms(1) by (simp add: tableInv_def distinct_update)
  moreover have "list_all (\<lambda>(k, c). conn_id c = k) (AList.update k c (connections s))"
    using assms by (intro list_all_update) (simp_all add: tableInv_def)
  ultimately show ?thesis by (simp add: tableInv_def)
qed

lemma length_update:
  "length (AList.update k v al) = (if k \<in> fst ` set al then length al else Suc (length al))"
  by (induction al) auto

lemma save_result:
  "saveConnectionToBackend env c s = Inr s' \<Longrightarrow>
   s' = s\<lparr>credentialStore := store_upsert (connectionRecord c) (credentialStore s)\<rparr>"
  by (auto simp: saveConnectionToBackend_def split: option.splits)

lemma save_connections:
  "saveConnectionToBackend env c s = Inr s' \<Longrightarrow> connections s' = connections s"
  by (auto dest: save_result)

lemma save_succeeds:
  assumes "importError env = None" and "invokeError env = None" and "conn_accessToken c = Some t"
  shows "saveConnectionToBackend env c s =
         Inr (s\<lparr>credentialStore := store_upsert (connectionRecord c) (credentialStore s)\<rparr>)"
  using assms by (simp add: saveConnectionToBackend_def)

lemma tableInv_connections: "connections s' = connections s \<Longrightarrow> tableInv s' = tableInv s"
  by (simp add: tableInv_def)

lemma processAuthToken_success:
  assumes "processAuthToken env providerId token s = (Inr c, s')"
  shows "\<exists>authData. decodeToken env token = Inr authData \<and>
           ad_provider authData = Some providerId \<and>
           conn_id c = connectionId providerId (toStr (ad_uid authData)) \<and>
           conn_provider c = providerId \<and>
           s' = stored c s"
  using assms
  by (auto simp: processAuthToken_def Let_def stored_def dest!: save_result split: sum.splits if_splits)

lemma processAuthResult_success:
  assumes "processAuthResult env result s = (Inr c, s')"
  shows "\<exists>r u. result = Some r \<and> user r = Some u \<and>
           getProviderIdFromUser u = Inr (conn_provider c) \<and>
           conn_id c = connectionId (conn_provider c) (uid u) \<and>
           s' = stored c s"
  using assms
  by (auto simp: processAuthResult_def Let_def stored_def dest!: save_result
      split: option.splits sum.splits if_splits)

lemma connectProvider_success:
  assumes "connectProvider env providerId s = (Inr c, s')"
  shows "\<exists>result. signInWithPopup env providerId = Inr result \<and>
           processAuthResult env (Some result) s = (Inr c, s')"
  using assms
  by (auto simp: connectProvider_def Let_def split: sum.splits if_splits option.splits)

lemma filter_key_absent:
  "f a \<notin> f ` set xs \<Longrightarrow> filter (\<lambda>x. f x = f a) xs = []"
  by (induction xs) auto

lemma filter_key_le_one:
  assumes "distinct (map f xs)"
  shows "length (filter (\<lambda>x. f x = i) xs) \<le> 1"
  using assms
proof (induction xs)
  case Nil
  then show ?case by simp
next
  case (Cons a xs)
  show ?case
  proof (cases "f a = i")
    case True
    then have "filter (\<lambda>x. f x = i) xs = []"
      using Cons.prems filter_key_absent [of f a xs] by simp
    then show ?thesis using True by simp
  next
    case False
    then show ?thesis using Cons by simp
  qed
qed

lemma filter_key_only:
  assumes "distinct (map f xs)" and "c \<in> set xs"
  shows "filter (\<lambda>x. f x = f c) xs = [c]"
  using assms
proof (induction xs)
  case Nil
  then show ?case by simp
next
  case (Cons a xs)
  show ?case
  proof (cases "a = c")
    case True
    then have "filter (\<lambda>x. f x = f c) xs = []"
      using Cons.prems(1) filter_key_absent [of f c xs] by simp
    then show ?thesis using True by simp
  next
    case False
    then have in_rest: "c \<in> set xs" using Cons.prems(2) by simp
    then have "f a \<noteq> f c" using Cons.prems(1) by force
    then show ?thesis using Cons in_rest by simp
  qed
qed

lemma processAuthToken_succeeds:
  assumes "decodeToken env token = Inr authData" and "ad_provider authData = Some providerId"
    and "ad_accessToken authData = Some accessToken"
    and "importError env = None" and "invokeError env = None"
  shows "processAuthToken env providerId token s =
         (let connection =
                \<lparr>conn_id = connectionId providerId (toStr (ad_uid authData)),
                 conn_provider = providerId,
                 conn_email = ad_email authData,
                 conn_accessToken = Some accessToken,
                 conn_refreshToken = None,
                 conn_expiresAt = now env + 3600 * 1000,
                 conn_connectedAt = now env\<rparr>
          in (Inr connection, stored connection s))"
  using assms
  by (simp add: processAuthToken_def Let_def stored_def saveConnectionToBackend_def)

lemma processAuthResult_succeeds:
  assumes "result = Some r" and "user r = Some u" and "getProviderIdFromUser u = Inr provider"
    and "extractAccessToken r u provider \<noteq> []"
    and "importError env = None" and "invokeError env = None"
  shows "processAuthResult env result s =
         (let connection =
                \<lparr>conn_id = connectionId provider (uid u),
                 conn_provider = provider,
                 conn_email = Some (orElse (email u) []),
                 conn_accessToken = Some (extractAccessToken r u provider),
                 conn_refreshToken = None,
                 conn_expiresAt = now env + 3600 * 1000,
                 conn_connectedAt = now env\<rparr>
          in (Inr connection, stored connection s))"
  using assms
  by (simp add: processAuthResult_def Let_def stored_def saveConnectionToBackend_def)

lemma connectProvider_succeeds:
  assumes "providerId = ''google'' \<or> providerId = ''microsoft''" and "\<not> isTauri env"
    and "signInWithPopup env providerId = Inr r"
  shows "connectProvider env providerId s = processAuthResult env (Some r) s"
  using assms by (auto simp: connectProvider_def)

lemma connectionId_inj:
  assumes "provider1 = ''google'' \<or> provider1 = ''microsoft''"
    and "provider2 = ''google'' \<or> provider2 = ''microsoft''"
    and "connectionId provider1 user1 = connectionId provider2 user2"
  shows "provider1 = provider2 \<and> user1 = user2"
  using assms by (auto simp: connectionId_def)

lemma stored_once:
  assumes inv: "tableInv s"
  shows "tableInv (stored c s) \<and>
         map_of (connections (stored c s)) (conn_id c) = Some c \<and>
         filter (\<lambda>x. conn_id x = conn_id c) (getConnections (stored c s)) = [c] \<and>
         (\<forall>p u. length (filter (\<lambda>x. conn_provider x = p \<and> conn_id x = connectionId p u)
                           (getConnections (stored c s))) \<le> 1) \<and>
         length (getConnections (stored c s)) =
           (if conn_id c \<in> conn_id ` set (getConnections s) then length (getConnections s)
            else Suc (length (getConnections s)))"
proof -
  let ?s' = "stored c s"
  have upd: "connections ?s' = AList.update (conn_id c) c (connections s)"
    by (simp add: stored_def)
  have inv': "tableInv ?s'"
    using tableInv_update [OF inv refl, of c] upd by (simp add: tableInv_def)
  have look: "map_of (connections ?s') (conn_id c) = Some c"
    by (simp add: upd update_conv')
  have ids: "map conn_id (getConnections s') = map fst (connections s')"
    if "tableInv s'" for s'
    using that by (auto simp: tableInv_def getConnections_def list_all_iff)
  have d: "distinct (map conn_id (getConnections ?s'))"
    using inv' ids [OF inv'] by (simp add: tableInv_def)
  have mem: "c \<in> set (getConnections ?s')"
    using look by (auto simp: getConnections_def dest: map_of_SomeD intro: rev_image_eqI)
  have pair: "length (filter (\<lambda>x. conn_provider x = p \<and> conn_id x = connectionId p u)
                           (getConnections ?s')) \<le> 1" for p u
  proof -
    have "filter (\<lambda>x. conn_provider x = p \<and> conn_id x = connectionId p u) (getConnections ?s') =
          filter (\<lambda>x. conn_provider x = p) (filter (\<lambda>x. conn_id x = connectionId p u) (getConnections ?s'))"
      by (simp add: conj_commute)
    then have "length (filter (\<lambda>x. conn_provider x = p \<and> conn_id x = connectionId p u) (getConnections ?s'))
          \<le> length (filter (\<lambda>x. conn_id x = connectionId p u) (getConnections ?s'))"
      by (simp only: length_filter_le)
    also have "\<dots> \<le> 1" by (rule filter_key_le_one [OF d])
    finally show ?thesis .
  qed
  have keys: "conn_id ` set (getConnections s) = fst ` set (connections s)"
    using ids [OF inv] by (metis list.set_map)
  have len: "length (getConnections ?s') =
           (if conn_id c \<in> conn_id ` set (getConnections s) then length (getConnections s)
            else Suc (length (getConnections s)))"
    using keys by (simp add: getConnections_def upd length_update image_image)
  show ?thesis
    using inv' look filter_key_only [OF d mem] pair len by simp
qed

text \<open>
  C7. The id of a connection is \<^const>\<open>connectionId\<close> applied to the provider and the
  provider's user id (the \<^verbatim>\<open>uid\<close> of the token payload or of the signed-in user), a
  function of that pair, and for the two supported providers different pairs have
  different ids. A manual token of the requested provider that carries an access token,
  and a finished sign-in from which a token can be extracted, succeed when the bridge
  works: they return the new connection and the state in which it is stored under its id
  (\<^const>\<open>stored\<close>); \<^verbatim>\<open>connectProvider\<close> outside the Tauri shell is
  \<^verbatim>\<open>processAuthResult\<close> of the popup's result. Every successful call ends in such a
  state. In it the table satisfies its invariant again, the new connection is the only one
  with its id, no pair has more than one connection, and when a connection with that id
  was stored before (the same account is authenticated again) the number of stored
  connections is unchanged.
\<close>

theorem reconnect_overwrites:
  assumes "tableInv s"
  shows "(decodeToken env token = Inr authData \<and> ad_provider authData = Some providerId \<and>
          ad_accessToken authData = Some accessToken \<and>
          importError env = None \<and> invokeError env = None \<longrightarrow>
            processAuthToken env providerId token s =
              (let connection =
                     \<lparr>conn_id = connectionId providerId (toStr (ad_uid authData)),
                      conn_provider = providerId,
                      conn_email = ad_email authData,
                      conn_accessToken = Some accessToken,
                      conn_refreshToken = None,
                      conn_expiresAt = now env + 3600 * 1000,
                      conn_connectedAt = now env\<rparr>
               in (Inr connection, stored connection s))) \<and>
         (result = Some r \<and> user r = Some u \<and> getProviderIdFromUser u = Inr provider \<and>
          extractAccessToken r u provider \<noteq> [] \<and>
          importError env = None \<and> invokeError env = None \<longrightarrow>
            processAuthResult env result s =
              (let connection =
                     \<lparr>conn_id = connectionId provider (uid u),
                      conn_provider = provider,
                      conn_email = Some (orElse (email u) []),
                      conn_accessToken = Some (extractAccessToken r u provider),
                      conn_refreshToken = None,
                      conn_expiresAt = now env + 3600 * 1000,
                      conn_connectedAt = now env\<rparr>
               in (Inr connection, stored connection s))) \<and>
         ((providerId = ''google'' \<or> providerId = ''microsoft'') \<and> \<not> isTauri env \<and>
          signInWithPopup env providerId = Inr popupResult \<longrightarrow>
            connectProvider env providerId s = processAuthResult env (Some popupResult) s) \<and>
         (processAuthToken env providerId token s = (Inr c, s') \<or>
          processAuthResult env result s = (Inr c, s') \<or>
          connectProvider env providerId s = (Inr c, s') \<longrightarrow>
            s' = stored c s \<and> (\<exists>userId. conn_id c = connectionId (conn_provider c) userId)) \<and>
         tableInv (stored c s) \<and>
         filter (\<lambda>x. conn_id x = conn_id c) (getConnections (stored c s)) = [c] \<and>
         (\<forall>p u. length (filter (\<lambda>x. conn_provider x = p \<and> conn_id x = connectionId p u)
                           (getConnections (stored c s))) \<le> 1) \<and>
         length (getConnections (stored c s)) =
           (if conn_id c \<in> conn_id ` set (getConnections s) then length (getConnections s)
            else Suc (length (getConnections s))) \<and>
         ((provider1 = ''google'' \<or> provider1 = ''microsoft'') \<and>
          (provider2 = ''google'' \<or> provider2 = ''microsoft'') \<and>
          connectionId provider1 user1 = connectionId provider2 user2 \<longrightarrow>
            provider1 = provider2 \<and> user1 = user2)"
proof -
  have token: "s' = stored c s \<and> (\<exists>userId. conn_id c = connectionId (conn_provider c) userId)"
    if "processAuthToken env providerId token s = (Inr c, s')"
    using processAuthToken_success [OF that] by auto
  have res: "s' = stored c s \<and> (\<exists>userId. conn_id c = connectionId (conn_provider c) userId)"
    if "processAuthResult env result s = (Inr c, s')" for result
    using processAuthResult_success [OF that] by auto
  have popup: "s' = stored c s \<and> (\<exists>userId. conn_id c = connectionId (conn_provider c) userId)"
    if cp: "connectProvider env providerId s = (Inr c, s')"
  proof -
    obtain popupResult where "processAuthResult env (Some popupResult) s = (Inr c, s')"
      using connectProvider_success [OF cp] by blast
    then show ?thesis by (rule res)
  qed
  have every: "processAuthToken env providerId token s = (Inr c, s') \<or>
          processAuthResult env result s = (Inr c, s') \<or>
          connectProvider env providerId s = (Inr c, s') \<longrightarrow>
            s' = stored c s \<and> (\<exists>userId. conn_id c = connectionId (conn_provider c) userId)"
    using token res popup by blast
  have byToken: "decodeToken env token = Inr authData \<and> ad_provider authData = Some providerId \<and>
          ad_accessToken authData = Some accessToken \<and>
          importError env = None \<and> invokeError env = None \<longrightarrow>
            processAuthToken env providerId token s =
              (let connection =
                     \<lparr>conn_id = connectionId providerId (toStr (ad_uid authData)),
                      conn_provider = providerId,
                      conn_email = ad_email authData,
                      conn_accessToken = Some accessToken,
                      conn_refreshToken = None,
                      conn_expiresAt = now env + 3600 * 1000,
                      conn_connectedAt = now env\<rparr>
               in (Inr connection, stored connection s))"
    by (blast intro: processAuthToken_succeeds)
  have byResult: "result = Some r \<and> user r = Some u \<and> getProviderIdFromUser u = Inr provider \<and>
          extractAccessToken r u provider \<noteq> [] \<and>
          importError env = None \<and> invokeError env = None \<longrightarrow>
            processAuthResult env result s =
              (let connection =
                     \<lparr>conn_id = connectionId provider (uid u),
                      conn_provider = provider,
                      conn_email = Some (orElse (email u) []),
                      conn_accessToken = Some (extractAccessToken r u provider),
                      conn_refreshToken = None,
                      conn_expiresAt = now env + 3600 * 1000,
                      conn_connectedAt = now env\<rparr>
               in (Inr connection, stored connection s))"
    by (blast intro: processAuthResult_succeeds)
  have byPopup: "(providerId = ''google'' \<or> providerId = ''microsoft'') \<and> \<not> isTauri env \<and>
          signInWithPopup env providerId = Inr popupResult \<longrightarrow>
            connectProvider env providerId s = processAuthResult env (Some popupResult) s"
    by (blast intro: connectProvider_succeeds)
  have inj: "(provider1 = ''google'' \<or> provider1 = ''microsoft'') \<and>
          (provider2 = ''google'' \<or> provider2 = ''microsoft'') \<and>
          connectionId provider1 user1 = connectionId provider2 user2 \<longrightarrow>
            provider1 = provider2 \<and> user1 = user2"
    using connectionId_inj [of provider1 provider2 user1 user2] by blast
  note once = stored_once [OF assms, of c]
  have inv': "tableInv (stored c s)"
    and only: "filter (\<lambda>x. conn_id x = conn_id c) (getConnections (stored c s)) = [c]"
    and pair: "\<forall>p u. length (filter (\<lambda>x. conn_provider x = p \<and> conn_id x = connectionId p u)
                           (getConnections (stored c s))) \<le> 1"
    and len: "length (getConnections (stored c s)) =
           (if conn_id c \<in> conn_id ` set (getConnections s) then length (getConnections s)
            else Suc (length (getConnections s)))"
    using once by blast+
  show ?thesis
    using byToken byResult byPopup every inv' only pair len inj by (intro conjI)
qed

lemma annExpiredAndBob_stored:
  "stored annGoogle annExpiredAndBob =
     \<lparr>connections = [(''google-u1'', annGoogle), (''microsoft-u2'', bobMicrosoft)],
      credentialStore = [connectionRecord annGoogle, connectionRecord bobMicrosoft]\<rparr>"
  by (simp add: stored_def annExpiredAndBob_def annGoogle_def annExpired_def bobMicrosoft_def
      store_upsert_def connectionRecord_def)

text \<open>Ann connects for the first time: the empty table gets its first entry.\<close>

lemma first_connection:
  "processAuthToken exampleEnv ''google'' ''ann'' emptyService = (Inr annGoogle, annConnected)"
  by (simp add: processAuthToken_def Let_def exampleEnv_def exampleDecode_def annPayload_def
      connectionId_def emptyService_def annConnected_def annGoogle_def saveConnectionToBackend_def
      store_upsert_def connectionRecord_def annRecord_def)

text \<open>
  Ann's connection has expired and she authenticates again, by token, by a finished
  sign-in and by \<^verbatim>\<open>connectProvider\<close>: each call returns her new connection and writes it
  over the expired one, and the table holds two connections before and after.
\<close>

theorem reconnect_overwrites_witness:
  "tableInv annExpiredAndBob \<and>
   decodeToken exampleEnv ''ann'' = Inr annPayload \<and> ad_provider annPayload = Some ''google'' \<and>
   ad_accessToken annPayload = Some ''token-g'' \<and>
   importError exampleEnv = None \<and> invokeError exampleEnv = None \<and>
   user annCredential = Some annUser \<and> getProviderIdFromUser annUser = Inr ''google'' \<and>
   extractAccessToken annCredential annUser ''google'' \<noteq> [] \<and>
   \<not> isTauri exampleEnv \<and> signInWithPopup exampleEnv ''google'' = Inr annCredential \<and>
   processAuthToken exampleEnv ''google'' ''ann'' annExpiredAndBob =
     (Inr annGoogle, stored annGoogle annExpiredAndBob) \<and>
   processAuthResult exampleEnv (Some annCredential) annExpiredAndBob =
     (Inr annGoogle, stored annGoogle annExpiredAndBob) \<and>
   connectProvider exampleEnv ''google'' annExpiredAndBob =
     (Inr annGoogle, stored annGoogle annExpiredAndBob) \<and>
   conn_id annGoogle = connectionId ''google'' ''u1'' \<and>
   getConnections annExpiredAndBob = [annExpired, bobMicrosoft] \<and>
   getConnections (stored annGoogle annExpiredAndBob) = [annGoogle, bobMicrosoft] \<and>
   annExpired \<noteq> annGoogle \<and>
   tableInv (stored annGoogle annExpiredAndBob) \<and>
   filter (\<lambda>x. conn_id x = conn_id annGoogle) (getConnections (stored annGoogle annExpiredAndBob)) =
     [annGoogle] \<and>
   length (getConnections (stored annGoogle annExpiredAndBob)) = length (getConnections annExpiredAndBob)"
proof -
  have inv: "tableInv annExpiredAndBob"
    by (simp add: tableInv_def annExpiredAndBob_def annExpired_def bobMicrosoft_def)
  have env: "decodeToken exampleEnv ''ann'' = Inr annPayload" "importError exampleEnv = None"
    "invokeError exampleEnv = None" "\<not> isTauri exampleEnv"
    "signInWithPopup exampleEnv ''google'' = Inr annCredential" "now exampleEnv = 1714550000000"
    by (simp_all add: exampleEnv_def exampleDecode_def exampleSignIn_def)
  have pay: "ad_provider annPayload = Some ''google''" "ad_accessToken annPayload = Some ''token-g''"
    "ad_uid annPayload = Some ''u1''" "ad_email annPayload = Some ''ann@example.com''"
    by (simp_all add: annPayload_def)
  have usr: "user annCredential = Some annUser" "getProviderIdFromUser annUser = Inr ''google''"
    "extractAccessToken annCredential annUser ''google'' = ''token-g''"
    "uid annUser = ''u1''" "email annUser = Some ''ann@example.com''"
    by (simp_all add: annCredential_def annUser_def getProviderIdFromUser_def extractAccessToken_def)
  have ne: "extractAccessToken annCredential annUser ''google'' \<noteq> []"
    by (simp add: usr)
  have i: "conn_id annGoogle = connectionId ''google'' ''u1''"
    by (simp add: annGoogle_def connectionId_def)
  have before: "getConnections annExpiredAndBob = [annExpired, bobMicrosoft]"
    by (simp add: getConnections_def annExpiredAndBob_def)
  have after: "getConnections (stored annGoogle annExpiredAndBob) = [annGoogle, bobMicrosoft]"
    by (simp add: getConnections_def annExpiredAndBob_stored)
  have changed: "annExpired \<noteq> annGoogle"
    by (simp add: annExpired_def annGoogle_def)
  note inst = reconnect_overwrites [OF inv, of exampleEnv "''ann''" annPayload "''google''" "''token-g''"
      "Some annCredential" annCredential annUser "''google''" annCredential annGoogle
      "stored annGoogle annExpiredAndBob" "''google''" "''google''" "''u1''" "''u1''"]
  have t: "processAuthToken exampleEnv ''google'' ''ann'' annExpiredAndBob =
     (Inr annGoogle, stored annGoogle annExpiredAndBob)"
    using inst env pay by (simp add: Let_def connectionId_def annGoogle_def)
  have r: "processAuthResult exampleEnv (Some annCredential) annExpiredAndBob =
     (Inr annGoogle, stored annGoogle annExpiredAndBob)"
    using inst env usr ne by (simp add: Let_def connectionId_def annGoogle_def)
  have c: "connectProvider exampleEnv ''google'' annExpiredAndBob =
     (Inr annGoogle, stored annGoogle annExpiredAndBob)"
    using inst env r by simp
  have rest: "tableInv (stored annGoogle annExpiredAndBob)"
    "filter (\<lambda>x. conn_id x = conn_id annGoogle) (getConnections (stored annGoogle annExpiredAndBob)) =
     [annGoogle]"
    using inst by blast+
  have len: "length (getConnections (stored annGoogle annExpiredAndBob)) = length (getConnections annExpiredAndBob)"
    by (simp add: before after)
  show ?thesis
    using inv env(1-5) pay(1,2) usr(1,2) ne t r c i before after changed rest len
    by (intro conjI)
qed

subsection \<open>Reachable states\<close>

text \<open>
  The invariant holds of the empty table and is kept by every operation, so it holds in
  every state the service can reach.
\<close>

lemma tableInv_empty: "tableInv \<lparr>connections = [], credentialStore = cs\<rparr>"
  by (simp add: tableInv_def)

lemma tableInv_fold_update:
  assumes "distinct (map fst tbl) \<and> list_all (\<lambda>(k, c). conn_id c = k) tbl"
  shows "distinct (map fst (fold (\<lambda>r t. AList.update (conn_id (f r)) (f r) t) rs tbl)) \<and>
         list_all (\<lambda>(k, c). conn_id c = k) (fold (\<lambda>r t. AList.update (conn_id (f r)) (f r) t) rs tbl)"
  using assms
proof (induction rs arbitrary: tbl)
  case Nil
  then show ?case by simp
next
  case (Cons r rs)
  have "distinct (map fst (AList.update (conn_id (f r)) (f r) tbl)) \<and>
        list_all (\<lambda>(k, c). conn_id c = k) (AList.update (conn_id (f r)) (f r) tbl)"
    using Cons.prems by (simp add: distinct_update list_all_update)
  then show ?case
    using Cons.IH by simp
qed

lemma tableInv_loadConnections: "tableInv s \<Longrightarrow> tableInv (loadConnections env s)"
  using tableInv_fold_update [of "[]" "recordConnection env" "credentialStore s"]
  by (simp add: loadConnections_def tableInv_def split: option.splits)

lemma tableInv_saved:
  "saveConnectionToBackend env c s1 = Inr s2 \<Longrightarrow> tableInv s1 \<Longrightarrow> tableInv s2"
  using tableInv_connections [OF save_connections] by blast

lemma tableInv_stored:
  assumes "tableInv s1"
    and "run = (case saveConnectionToBackend env c s1 of
                  Inl e \<Rightarrow> (Inl (f e), s1)
                | Inr s2 \<Rightarrow> (Inr c, s2))"
  shows "tableInv (snd run)"
  using assms tableInv_saved by (auto split: sum.splits)

lemma tableInv_processAuthToken:
  assumes "tableInv s"
  shows "tableInv (snd (processAuthToken env providerId token s))"
proof (cases "decodeToken env token")
  case (Inl e)
  then show ?thesis using assms by (simp add: processAuthToken_def)
next
  case (Inr authData)
  define c where "c =
           \<lparr>conn_id = connectionId providerId (toStr (ad_uid authData)),
             conn_provider = providerId,
             conn_email = ad_email authData,
             conn_accessToken = ad_accessToken authData,
             conn_refreshToken = None,
             conn_expiresAt = now env + 3600 * 1000,
             conn_connectedAt = now env\<rparr>"
  define s1 where "s1 = s\<lparr>connections := AList.update (conn_id c) c (connections s)\<rparr>"
  have inv1: "tableInv s1"
    unfolding s1_def using assms refl by (rule tableInv_update)
  show ?thesis
  proof (cases "ad_provider authData = Some providerId")
    case True
    have "processAuthToken env providerId token s =
          (case saveConnectionToBackend env c s1 of
             Inl e \<Rightarrow> (Inl ((\<lambda>e. invalidTokenError) e), s1)
           | Inr s2 \<Rightarrow> (Inr c, s2))"
      using Inr True by (simp add: processAuthToken_def Let_def c_def s1_def cong: sum.case_cong)
    then show ?thesis by (rule tableInv_stored [OF inv1])
  next
    case False
    then show ?thesis using Inr assms by (simp add: processAuthToken_def)
  qed
qed

lemma tableInv_processAuthResult:
  assumes "tableInv s"
  shows "tableInv (snd (processAuthResult env result s))"
proof (cases result)
  case None
  then show ?thesis using assms by (simp add: processAuthResult_def)
next
  case (Some r)
  show ?thesis
  proof (cases "user r")
    case None
    then show ?thesis using Some assms by (simp add: processAuthResult_def)
  next
    case u: (Some u)
    show ?thesis
    proof (cases "getProviderIdFromUser u")
      case (Inl e)
      then show ?thesis using Some u assms by (simp add: processAuthResult_def)
    next
      case (Inr providerId)
      define c where "c =
               \<lparr>conn_id = connectionId providerId (uid u),
                 conn_provider = providerId,
                 conn_email = Some (orElse (email u) []),
                 conn_accessToken = Some (extractAccessToken r u providerId),
                 conn_refreshToken = None,
                 conn_expiresAt = now env + 3600 * 1000,
                 conn_connectedAt = now env\<rparr>"
      define s1 where "s1 = s\<lparr>connections := AList.update (conn_id c) c (connections s)\<rparr>"
      have inv1: "tableInv s1"
        unfolding s1_def using assms refl by (rule tableInv_update)
      show ?thesis
      proof (cases "extractAccessToken r u providerId = []")
        case True
        then show ?thesis using Some u Inr assms by (simp add: processAuthResult_def)
      next
        case False
        have "processAuthResult env result s =
              (case saveConnectionToBackend env c s1 of
                 Inl e \<Rightarrow> (Inl ((\<lambda>e. e) e), s1)
               | Inr s2 \<Rightarrow> (Inr c, s2))"
          using Some u Inr False by (simp add: processAuthResult_def Let_def c_def s1_def cong: sum.case_cong)
        then show ?thesis by (rule tableInv_stored [OF inv1])
      qed
    qed
  qed
qed

lemma tableInv_connectProvider:
  "tableInv s \<Longrightarrow> tableInv (snd (connectProvider env providerId s))"
  using tableInv_processAuthResult [of s env]
  by (auto simp: connectProvider_def Let_def split: sum.splits option.splits)

lemma tableInv_fetchEvents:
  "tableInv s \<Longrightarrow> tableInv (snd (fetchEvents env c sd ed s))"
  using fetchEvents_snd [of env c sd ed s] tableInv_removeConnection [of s env "conn_id c"]
  by auto

subsection \<open>Snapshot\<close>

lemma managerState_values:
  "getConnections \<lparr>connections = managerState h m, credentialStore = cs\<rparr> =
   map (\<lambda>(k, r). h r) (table m)"
  by (simp add: getConnections_def managerState_def split_beta)

lemma getConnectionsArray_objects:
  "map (map_option h) (getConnectionsArray m) =
   map Some (getConnections \<lparr>connections = managerState h m, credentialStore = cs\<rparr>)"
  by (simp add: getConnectionsArray_def managerState_values split_beta)

lemma managerState_cong:
  assumes "\<forall>r\<in>snd ` set (table m). h' r = h r"
  shows "managerState h' m = managerState h m"
  using assms by (auto simp: managerState_def)

lemma mutate_spares:
  assumes "\<not> writesManaged m mu a" and "r \<in> snd ` set (table m)"
  shows "snd (mutate mu (a, h)) r = h r"
  using assms by (cases mu) (auto split: option.splits)

lemma mutations_spare:
  assumes "sparesManaged m mus (a, h)" and "r \<in> snd ` set (table m)"
  shows "snd (fold mutate mus (a, h)) r = h r"
  using assms
proof (induction mus arbitrary: a h)
  case Nil
  then show ?case by simp
next
  case (Cons mu mus)
  obtain a' h' where step: "mutate mu (a, h) = (a', h')"
    by (cases "mutate mu (a, h)")
  have "h' r = h r"
    using mutate_spares [of m mu a r h] Cons.prems step by simp
  moreover have "snd (fold mutate mus (a', h')) r = h' r"
    using Cons.IH [of a' h'] Cons.prems step by simp
  ultimately show ?case using step by simp
qed

text \<open>
  C8, as the spec states it, fails: the array \<^verbatim>\<open>getConnections\<close> returns is new, but its
  elements are the connection objects of the table. A caller that assigns to the
  \<^verbatim>\<open>accessToken\<close> of the first returned record changes the connection the manager holds.
\<close>

theorem returned_records_are_shared:
  "getConnectionsArray exampleManager = [Some 0, Some 1] \<and>
   managerState exampleHeap exampleManager =
     [(''google-u1'', annGoogle), (''microsoft-u2'', bobMicrosoft)] \<and>
   managerState
     (snd (fold mutate [WriteRecord 0 overwriteToken] (getConnectionsArray exampleManager, exampleHeap)))
     exampleManager =
     [(''google-u1'', annGoogle\<lparr>conn_accessToken := Some ''changed''\<rparr>), (''microsoft-u2'', bobMicrosoft)] \<and>
   managerState
     (snd (fold mutate [WriteRecord 0 overwriteToken] (getConnectionsArray exampleManager, exampleHeap)))
     exampleManager \<noteq> managerState exampleHeap exampleManager"
  by (simp add: getConnectionsArray_def exampleManager_def managerState_def exampleHeap_def
      overwriteToken_def annGoogle_def)

lemma getConnectionsArray_nth:
  assumes "i < length (table m)"
  shows "getConnectionsArray m ! i = Some (snd (table m ! i))"
  using assms by (simp add: getConnectionsArray_def split_beta)

lemma write_through_array:
  assumes "i < length (table m)"
  shows "snd (mutate (WriteRecord i f) (getConnectionsArray m, h)) =
         h(snd (table m ! i) := f (h (snd (table m ! i))))"
  using assms getConnectionsArray_nth [OF assms]
  by (simp add: getConnectionsArray_def)

lemma managerState_write:
  "managerState (h(r := c)) m = map (\<lambda>(k, r'). (k, if r' = r then c else h r')) (table m)"
  by (simp add: managerState_def split_beta)

lemma managerState_nth:
  assumes "i < length (table m)"
  shows "snd (managerState h m ! i) = h (snd (table m ! i))"
  using assms by (simp add: managerState_def split_beta)

text \<open>
  C8, amended. The array \<^verbatim>\<open>getConnections\<close> returns is a copy whose elements are the
  manager's own connection objects: read through the heap it lists the connections of the
  table, and its \<open>i\<close>-th element is the reference the table holds. A write to the fields of
  the \<open>i\<close>-th returned record therefore writes the manager's connection, and changes the
  manager's state whenever it changes the record. Every sequence of mutations of the
  returned value in which no step writes to a connection object of the table (changes of
  the array itself, and writes to objects the caller put there) leaves the manager's state
  unchanged.
\<close>

theorem snapshot_is_shallow:
  "map (map_option h) (getConnectionsArray m) = map (\<lambda>(k, c). Some c) (managerState h m) \<and>
   (i < length (table m) \<longrightarrow>
      getConnectionsArray m ! i = Some (snd (table m ! i)) \<and>
      managerState (snd (mutate (WriteRecord i f) (getConnectionsArray m, h))) m =
        map (\<lambda>(k, r). (k, if r = snd (table m ! i) then f (h (snd (table m ! i))) else h r)) (table m) \<and>
      (f (h (snd (table m ! i))) \<noteq> h (snd (table m ! i)) \<longrightarrow>
         managerState (snd (mutate (WriteRecord i f) (getConnectionsArray m, h))) m \<noteq> managerState h m)) \<and>
   (sparesManaged m mutations (getConnectionsArray m, h) \<longrightarrow>
      managerState (snd (fold mutate mutations (getConnectionsArray m, h))) m = managerState h m)"
proof (intro conjI impI)
  show "map (map_option h) (getConnectionsArray m) = map (\<lambda>(k, c). Some c) (managerState h m)"
    by (simp add: getConnectionsArray_def managerState_def split_beta)
next
  assume i: "i < length (table m)"
  show "getConnectionsArray m ! i = Some (snd (table m ! i))"
    using i by (rule getConnectionsArray_nth)
  show written: "managerState (snd (mutate (WriteRecord i f) (getConnectionsArray m, h))) m =
        map (\<lambda>(k, r). (k, if r = snd (table m ! i) then f (h (snd (table m ! i))) else h r)) (table m)"
    by (simp only: write_through_array [OF i] managerState_write)
  assume changes: "f (h (snd (table m ! i))) \<noteq> h (snd (table m ! i))"
  have "snd (managerState (snd (mutate (WriteRecord i f) (getConnectionsArray m, h))) m ! i) =
        f (h (snd (table m ! i)))"
    using i by (simp only: written) (simp add: split_beta)
  moreover have "snd (managerState h m ! i) = h (snd (table m ! i))"
    using i by (rule managerState_nth)
  ultimately show "managerState (snd (mutate (WriteRecord i f) (getConnectionsArray m, h))) m \<noteq>
        managerState h m"
    using changes by metis
next
  assume "sparesManaged m mutations (getConnectionsArray m, h)"
  then show "managerState (snd (fold mutate mutations (getConnectionsArray m, h))) m = managerState h m"
    using mutations_spare by (intro managerState_cong) simp
qed

text \<open>
  The two connections of the example. Writing a new access token to the first returned
  record changes Ann's connection in the manager's state; a caller that empties the
  returned array, after putting an object of its own there and writing to it, changes
  nothing.
\<close>

theorem snapshot_is_shallow_witness:
  "map (map_option exampleHeap) (getConnectionsArray exampleManager) = [Some annGoogle, Some bobMicrosoft] \<and>
   0 < length (table exampleManager) \<and>
   getConnectionsArray exampleManager ! 0 = Some (snd (table exampleManager ! 0)) \<and>
   overwriteToken (exampleHeap (snd (table exampleManager ! 0))) \<noteq>
     exampleHeap (snd (table exampleManager ! 0)) \<and>
   managerState (snd (mutate (WriteRecord 0 overwriteToken) (getConnectionsArray exampleManager, exampleHeap)))
     exampleManager =
     [(''google-u1'', overwriteToken annGoogle), (''microsoft-u2'', bobMicrosoft)] \<and>
   managerState (snd (mutate (WriteRecord 0 overwriteToken) (getConnectionsArray exampleManager, exampleHeap)))
     exampleManager \<noteq> managerState exampleHeap exampleManager \<and>
   sparesManaged exampleManager [Pop, Push 7, WriteRecord 1 overwriteToken, SetElement 0 7, SetLength 0]
     (getConnectionsArray exampleManager, exampleHeap) \<and>
   fst (fold mutate [Pop, Push 7, WriteRecord 1 overwriteToken, SetElement 0 7, SetLength 0]
     (getConnectionsArray exampleManager, exampleHeap)) = [] \<and>
   snd (fold mutate [Pop, Push 7, WriteRecord 1 overwriteToken, SetElement 0 7, SetLength 0]
     (getConnectionsArray exampleManager, exampleHeap)) 7 = overwriteToken (exampleHeap 7) \<and>
   managerState
     (snd (fold mutate [Pop, Push 7, WriteRecord 1 overwriteToken, SetElement 0 7, SetLength 0]
        (getConnectionsArray exampleManager, exampleHeap))) exampleManager =
   managerState exampleHeap exampleManager"
proof -
  note inst = snapshot_is_shallow [of exampleHeap exampleManager 0 overwriteToken
      "[Pop, Push 7, WriteRecord 1 overwriteToken, SetElement 0 7, SetLength 0]"]
  have st: "managerState exampleHeap exampleManager =
      [(''google-u1'', annGoogle), (''microsoft-u2'', bobMicrosoft)]"
    by (simp add: managerState_def exampleManager_def exampleHeap_def)
  have arr: "map (map_option exampleHeap) (getConnectionsArray exampleManager) =
      [Some annGoogle, Some bobMicrosoft]"
    using inst by (simp add: st)
  have i: "0 < length (table exampleManager)"
    by (simp add: exampleManager_def)
  have first: "snd (table exampleManager ! 0) = 0" "exampleHeap 0 = annGoogle"
    by (simp_all add: exampleManager_def exampleHeap_def)
  have changes: "overwriteToken (exampleHeap (snd (table exampleManager ! 0))) \<noteq>
     exampleHeap (snd (table exampleManager ! 0))"
    by (simp add: first overwriteToken_def annGoogle_def)
  have nth: "getConnectionsArray exampleManager ! 0 = Some (snd (table exampleManager ! 0))"
    using inst i by blast
  have written: "managerState (snd (mutate (WriteRecord 0 overwriteToken) (getConnectionsArray exampleManager, exampleHeap)))
     exampleManager =
     [(''google-u1'', overwriteToken annGoogle), (''microsoft-u2'', bobMicrosoft)]"
    using inst i by (simp add: first) (simp add: exampleManager_def exampleHeap_def)
  have differs: "managerState (snd (mutate (WriteRecord 0 overwriteToken) (getConnectionsArray exampleManager, exampleHeap)))
     exampleManager \<noteq> managerState exampleHeap exampleManager"
    using inst i changes by blast
  have s: "sparesManaged exampleManager [Pop, Push 7, WriteRecord 1 overwriteToken, SetElement 0 7, SetLength 0]
     (getConnectionsArray exampleManager, exampleHeap)"
    by (simp add: getConnectionsArray_def exampleManager_def)
  have a: "fst (fold mutate [Pop, Push 7, WriteRecord 1 overwriteToken, SetElement 0 7, SetLength 0]
     (getConnectionsArray exampleManager, exampleHeap)) = []"
    "snd (fold mutate [Pop, Push 7, WriteRecord 1 overwriteToken, SetElement 0 7, SetLength 0]
     (getConnectionsArray exampleManager, exampleHeap)) 7 = overwriteToken (exampleHeap 7)"
    by (simp_all add: getConnectionsArray_def exampleManager_def)
  have same: "managerState
     (snd (fold mutate [Pop, Push 7, WriteRecord 1 overwriteToken, SetElement 0 7, SetLength 0]
        (getConnectionsArray exampleManager, exampleHeap))) exampleManager =
   managerState exampleHeap exampleManager"
    using inst s by blast
  show ?thesis
    using arr i nth changes written differs s a same by (intro conjI)
qed

end
